theory Spec2Isabelle
  imports Complex_Main "HOL-Library.Word"
begin

unbundle bit_operations_syntax

section \<open>C floating-point values\<close>

text \<open>
  The generator computes with \<^verbatim>\<open>float\<close> and \<^verbatim>\<open>double\<close>. A value is a number, an
  infinity or a NaN; the special values have to be kept, because the code divides by
  envelope lengths that may be zero and guards its clamps with comparisons, which are
  all false on a NaN. Finite results are exact reals: rounding to 24 or 53 bits (and
  overflow to an infinity) depends on the compiler's evaluation method and is left
  out, so the two C types coincide and nothing below relies on the exact value of an
  arithmetic result, only on the order and on the special values. Zero is unsigned.
\<close>

datatype cfloat = NaN | MInf | Fin real | PInf

fun fneg :: "cfloat \<Rightarrow> cfloat" where
  "fneg NaN = NaN"
| "fneg MInf = PInf"
| "fneg PInf = MInf"
| "fneg (Fin x) = Fin (- x)"

fun fadd :: "cfloat \<Rightarrow> cfloat \<Rightarrow> cfloat" where
  "fadd (Fin x) (Fin y) = Fin (x + y)"
| "fadd NaN _ = NaN"
| "fadd _ NaN = NaN"
| "fadd PInf MInf = NaN"
| "fadd MInf PInf = NaN"
| "fadd PInf _ = PInf"
| "fadd _ PInf = PInf"
| "fadd MInf _ = MInf"
| "fadd _ MInf = MInf"

text \<open>The sign of a non-NaN value: \<open>-1\<close>, \<open>0\<close> or \<open>1\<close>.\<close>

fun fsign :: "cfloat \<Rightarrow> int" where
  "fsign (Fin x) = (if x < 0 then - 1 else if x = 0 then 0 else 1)"
| "fsign PInf = 1"
| "fsign MInf = - 1"
| "fsign NaN = 0"

definition signed_inf :: "int \<Rightarrow> cfloat" where
  "signed_inf s = (if s = 0 then NaN else if s < 0 then MInf else PInf)"

fun fmul :: "cfloat \<Rightarrow> cfloat \<Rightarrow> cfloat" where
  "fmul (Fin x) (Fin y) = Fin (x * y)"
| "fmul NaN _ = NaN"
| "fmul _ NaN = NaN"
| "fmul a b = signed_inf (fsign a * fsign b)"

fun fdiv :: "cfloat \<Rightarrow> cfloat \<Rightarrow> cfloat" where
  "fdiv (Fin x) (Fin y) = (if y = 0 then signed_inf (fsign (Fin x)) else Fin (x / y))"
| "fdiv NaN _ = NaN"
| "fdiv _ NaN = NaN"
| "fdiv (Fin x) _ = Fin 0"
| "fdiv a (Fin y) = signed_inf (fsign a * (if y < 0 then - 1 else 1))"
| "fdiv _ _ = NaN"

fun flt :: "cfloat \<Rightarrow> cfloat \<Rightarrow> bool" where
  "flt (Fin x) (Fin y) = (x < y)"
| "flt NaN _ = False"
| "flt _ NaN = False"
| "flt MInf b = (b \<noteq> MInf)"
| "flt a PInf = (a \<noteq> PInf)"
| "flt _ _ = False"

text \<open>C's \<^verbatim>\<open>==\<close>: false as soon as one side is a NaN.\<close>

definition feq :: "cfloat \<Rightarrow> cfloat \<Rightarrow> bool" where
  "feq a b = (a \<noteq> NaN \<and> b \<noteq> NaN \<and> a = b)"

instantiation cfloat :: "{zero, one, plus, minus, uminus, times, inverse, ord}"
begin

definition zero_cfloat :: cfloat where "zero_cfloat = Fin 0"
definition one_cfloat :: cfloat where "one_cfloat = Fin 1"
definition plus_cfloat :: "cfloat \<Rightarrow> cfloat \<Rightarrow> cfloat" where "plus_cfloat a b = fadd a b"
definition uminus_cfloat :: "cfloat \<Rightarrow> cfloat" where "uminus_cfloat a = fneg a"
definition minus_cfloat :: "cfloat \<Rightarrow> cfloat \<Rightarrow> cfloat" where "minus_cfloat a b = fadd a (fneg b)"
definition times_cfloat :: "cfloat \<Rightarrow> cfloat \<Rightarrow> cfloat" where "times_cfloat a b = fmul a b"
definition divide_cfloat :: "cfloat \<Rightarrow> cfloat \<Rightarrow> cfloat" where "divide_cfloat a b = fdiv a b"
definition inverse_cfloat :: "cfloat \<Rightarrow> cfloat" where "inverse_cfloat a = fdiv (Fin 1) a"
definition less_cfloat :: "cfloat \<Rightarrow> cfloat \<Rightarrow> bool" where "less_cfloat a b = flt a b"
definition less_eq_cfloat :: "cfloat \<Rightarrow> cfloat \<Rightarrow> bool" where
  "less_eq_cfloat a b = (flt a b \<or> feq a b)"

instance ..

end

text \<open>
  \<^verbatim>\<open>pow(x, n)\<close> is only called with the literal exponents 1, 2, 3 and 5; for such an
  exponent it is the repeated product, also on the special values.
\<close>

fun powf :: "cfloat \<Rightarrow> nat \<Rightarrow> cfloat" where
  "powf x 0 = Fin 1"
| "powf x (Suc 0) = x"
| "powf x (Suc n) = x * powf x n"

fun sinf :: "cfloat \<Rightarrow> cfloat" where
  "sinf (Fin x) = Fin (sin x)"
| "sinf _ = NaN"

text \<open>
  \<^verbatim>\<open>(int)x\<close> truncates towards zero. C leaves the cast undefined on a NaN and outside
  the range of \<^verbatim>\<open>int\<close>; the model returns \<^verbatim>\<open>INT_MIN\<close> there, as the x86
  conversion instruction does.
\<close>

definition INT_MIN :: int where
  "INT_MIN = - 2147483648"

definition trunc :: "real \<Rightarrow> int" where
  "trunc x = (if 0 \<le> x then \<lfloor>x\<rfloor> else - \<lfloor>- x\<rfloor>)"

fun to_int :: "cfloat \<Rightarrow> int" where
  "to_int (Fin x) = (if - 2147483649 < x \<and> x < 2147483648 then trunc x else INT_MIN)"
| "to_int _ = INT_MIN"

definition of_int_f :: "int \<Rightarrow> cfloat" where
  "of_int_f i = Fin (of_int i)"

section \<open>The C library's generator and raylib's GetRandomValue\<close>

text \<open>
  \<^verbatim>\<open>srand\<close> and \<^verbatim>\<open>rand\<close> belong to the platform. They are a parameter of every
  function that draws: a seeding function into the generator's states, and a step
  that returns a draw (never negative) and the next state.
\<close>

record 'g libc =
  srand :: "int \<Rightarrow> 'g"
  rand :: "'g \<Rightarrow> nat \<times> 'g"

text \<open>
  Modelled from the spec: \<^verbatim>\<open>GetRandomValue(min, max)\<close> is raylib's, not this
  repository's; the spec reads it as a draw from the inclusive range. It is written
  as raylib has it: \<^verbatim>\<open>rand()%(abs(max - min) + 1) + min\<close>, after swapping the bounds
  when they are out of order.
\<close>

definition GetRandomValue :: "'g libc \<Rightarrow> int \<Rightarrow> int \<Rightarrow> 'g \<Rightarrow> int \<times> 'g" where
  "GetRandomValue L mn mx g =
     (let (lo, hi) = (if mn > mx then (mx, mn) else (mn, mx));
          (r, g') = rand L g
      in (int r mod (\<bar>hi - lo\<bar> + 1) + lo, g'))"

text \<open>\<^verbatim>\<open>#define frnd(range) ((float)GetRandomValue(0, 10000)/10000.0f*range)\<close>\<close>

definition frnd :: "'g libc \<Rightarrow> cfloat \<Rightarrow> 'g \<Rightarrow> cfloat \<times> 'g" where
  "frnd L rnge g =
     (let (v, g') = GetRandomValue L 0 10000 g
      in (of_int_f v / Fin 10000 * rnge, g'))"

section \<open>Wave parameters\<close>

text \<open>
  \<^verbatim>\<open>struct WaveParams\<close>: two \<^verbatim>\<open>int\<close> fields and twenty-two \<^verbatim>\<open>float\<close> fields,
  96 bytes. The record is polymorphic in the two cell types: the generator and the
  presets read the cells as values (\<open>int\<close> and \<open>cfloat\<close>), the file functions copy
  them as 32-bit words without reading them.
\<close>

record ('i, 'f) WaveParams =
  randSeed :: 'i
  waveTypeValue :: 'i
  attackTimeValue :: 'f
  sustainTimeValue :: 'f
  sustainPunchValue :: 'f
  decayTimeValue :: 'f
  startFrequencyValue :: 'f
  minFrequencyValue :: 'f
  slideValue :: 'f
  deltaSlideValue :: 'f
  vibratoDepthValue :: 'f
  vibratoSpeedValue :: 'f
  changeAmountValue :: 'f
  changeSpeedValue :: 'f
  squareDutyValue :: 'f
  dutySweepValue :: 'f
  repeatSpeedValue :: 'f
  phaserOffsetValue :: 'f
  phaserSweepValue :: 'f
  lpfCutoffValue :: 'f
  lpfCutoffSweepValue :: 'f
  lpfResonanceValue :: 'f
  hpfCutoffValue :: 'f
  hpfCutoffSweepValue :: 'f

type_synonym params = "(int, cfloat) WaveParams"

text \<open>
  The globals of the program that the sound functions touch: the current
  parameters, the regeneration flag and the state of the C library's generator.
\<close>

record 'g globals =
  params :: params
  regenerate :: bool
  rng :: 'g

text \<open>\<^verbatim>\<open>static WaveParams params;\<close> has static storage: every field starts as zero.\<close>

definition zero_params :: params where
  "zero_params =
     \<lparr>randSeed = 0, waveTypeValue = 0,
      attackTimeValue = Fin 0, sustainTimeValue = Fin 0, sustainPunchValue = Fin 0,
      decayTimeValue = Fin 0, startFrequencyValue = Fin 0, minFrequencyValue = Fin 0,
      slideValue = Fin 0, deltaSlideValue = Fin 0, vibratoDepthValue = Fin 0,
      vibratoSpeedValue = Fin 0, changeAmountValue = Fin 0, changeSpeedValue = Fin 0,
      squareDutyValue = Fin 0, dutySweepValue = Fin 0, repeatSpeedValue = Fin 0,
      phaserOffsetValue = Fin 0, phaserSweepValue = Fin 0, lpfCutoffValue = Fin 0,
      lpfCutoffSweepValue = Fin 0, lpfResonanceValue = Fin 0, hpfCutoffValue = Fin 0,
      hpfCutoffSweepValue = Fin 0\<rparr>"

subsection \<open>ResetWaveParams\<close>

text \<open>
  \<^verbatim>\<open>ResetWaveParams(WaveParams *params)\<close> writes through its pointer and seeds the
  generator: the model returns the record pointed to and the generator's new state.
\<close>

definition ResetWaveParams :: "'g libc \<Rightarrow> params \<Rightarrow> 'g \<Rightarrow> params \<times> 'g" where
  "ResetWaveParams L p g =
     (let (seed, g1) = GetRandomValue L 0x1 0xFFFE g;
          p = p\<lparr>randSeed := seed\<rparr>;
          g2 = srand L (randSeed p);
          p = p\<lparr>waveTypeValue := 0\<rparr>;
          p = p\<lparr>attackTimeValue := Fin 0\<rparr>;
          p = p\<lparr>sustainTimeValue := Fin 0.3\<rparr>;
          p = p\<lparr>sustainPunchValue := Fin 0\<rparr>;
          p = p\<lparr>decayTimeValue := Fin 0.4\<rparr>;
          p = p\<lparr>startFrequencyValue := Fin 0.3\<rparr>;
          p = p\<lparr>minFrequencyValue := Fin 0\<rparr>;
          p = p\<lparr>slideValue := Fin 0\<rparr>;
          p = p\<lparr>deltaSlideValue := Fin 0\<rparr>;
          p = p\<lparr>vibratoDepthValue := Fin 0\<rparr>;
          p = p\<lparr>vibratoSpeedValue := Fin 0\<rparr>;
          p = p\<lparr>changeAmountValue := Fin 0\<rparr>;
          p = p\<lparr>changeSpeedValue := Fin 0\<rparr>;
          p = p\<lparr>squareDutyValue := Fin 0\<rparr>;
          p = p\<lparr>dutySweepValue := Fin 0\<rparr>;
          p = p\<lparr>repeatSpeedValue := Fin 0\<rparr>;
          p = p\<lparr>phaserOffsetValue := Fin 0\<rparr>;
          p = p\<lparr>phaserSweepValue := Fin 0\<rparr>;
          p = p\<lparr>lpfCutoffValue := Fin 1\<rparr>;
          p = p\<lparr>lpfCutoffSweepValue := Fin 0\<rparr>;
          p = p\<lparr>lpfResonanceValue := Fin 0\<rparr>;
          p = p\<lparr>hpfCutoffValue := Fin 0\<rparr>;
          p = p\<lparr>hpfCutoffSweepValue := Fin 0\<rparr>
      in (p, g2))"

subsection \<open>GenRandomize\<close>









subsection \<open>The preset generators\<close>

















text \<open>
  A generator to run the definitions on: the sample implementation of \<^verbatim>\<open>rand\<close> in
  the C standard, on a 32-bit state.
\<close>

definition sample_libc :: "nat libc" where
  "sample_libc =
     \<lparr>srand = (\<lambda>seed. nat (seed mod 4294967296)),
      rand = (\<lambda>g. let g' = (g * 1103515245 + 12345) mod 4294967296
                   in ((g' div 65536) mod 32768, g'))\<rparr>"

section \<open>Parameter files\<close>

subsection \<open>Bytes, cells and streams\<close>

text \<open>
  A file is its bytes. \<^verbatim>\<open>fwrite\<close> and \<^verbatim>\<open>fread\<close> copy the bytes of an object as they
  lie in memory: a four-byte cell least significant byte first (the tool targets x86),
  the 96-byte record as its 24 cells in declaration order.
\<close>

type_synonym byte = "8 word"
type_synonym cell = "32 word"
type_synonym raw_params = "(cell, cell) WaveParams"

definition bytes_of_cell :: "cell \<Rightarrow> byte list" where
  "bytes_of_cell w = [ucast w, ucast (drop_bit 8 w), ucast (drop_bit 16 w), ucast (drop_bit 24 w)]"

definition cell_of_bytes :: "byte list \<Rightarrow> cell" where
  "cell_of_bytes bs = foldr (\<lambda>b w. ucast b OR push_bit 8 w) bs 0"

definition cells :: "('c, 'c) WaveParams \<Rightarrow> 'c list" where
  "cells p =
     [randSeed p, waveTypeValue p, attackTimeValue p, sustainTimeValue p, sustainPunchValue p,
      decayTimeValue p, startFrequencyValue p, minFrequencyValue p, slideValue p,
      deltaSlideValue p, vibratoDepthValue p, vibratoSpeedValue p, changeAmountValue p,
      changeSpeedValue p, squareDutyValue p, dutySweepValue p, repeatSpeedValue p,
      phaserOffsetValue p, phaserSweepValue p, lpfCutoffValue p, lpfCutoffSweepValue p,
      lpfResonanceValue p, hpfCutoffValue p, hpfCutoffSweepValue p]"

definition of_cells :: "'c list \<Rightarrow> ('c, 'c) WaveParams" where
  "of_cells cs =
     \<lparr>randSeed = cs ! 0, waveTypeValue = cs ! 1, attackTimeValue = cs ! 2,
      sustainTimeValue = cs ! 3, sustainPunchValue = cs ! 4, decayTimeValue = cs ! 5,
      startFrequencyValue = cs ! 6, minFrequencyValue = cs ! 7, slideValue = cs ! 8,
      deltaSlideValue = cs ! 9, vibratoDepthValue = cs ! 10, vibratoSpeedValue = cs ! 11,
      changeAmountValue = cs ! 12, changeSpeedValue = cs ! 13, squareDutyValue = cs ! 14,
      dutySweepValue = cs ! 15, repeatSpeedValue = cs ! 16, phaserOffsetValue = cs ! 17,
      phaserSweepValue = cs ! 18, lpfCutoffValue = cs ! 19, lpfCutoffSweepValue = cs ! 20,
      lpfResonanceValue = cs ! 21, hpfCutoffValue = cs ! 22, hpfCutoffSweepValue = cs ! 23\<rparr>"

definition params_bytes :: "raw_params \<Rightarrow> byte list" where
  "params_bytes p = concat (map bytes_of_cell (cells p))"

fun cells_of_bytes :: "byte list \<Rightarrow> cell list" where
  "cells_of_bytes (b0 # b1 # b2 # b3 # bs) = cell_of_bytes [b0, b1, b2, b3] # cells_of_bytes bs"
| "cells_of_bytes _ = []"

text \<open>
  \<^verbatim>\<open>fread\<close> of \<open>n\<close> bytes takes what the stream still has, at most \<open>n\<close>. The bytes
  read replace the first bytes of the object read into; on a short read the rest of the
  object keeps what it held.
\<close>

definition fread :: "nat \<Rightarrow> byte list \<Rightarrow> byte list \<times> byte list" where
  "fread n f = (take n f, drop n f)"

definition store :: "byte list \<Rightarrow> byte list \<Rightarrow> byte list" where
  "store bs obj = bs @ drop (length bs) obj"

definition read_cell :: "byte list \<Rightarrow> cell \<Rightarrow> cell \<times> byte list" where
  "read_cell f c = (let (bs, f') = fread 4 f in (cell_of_bytes (store bs (bytes_of_cell c)), f'))"

definition read_params :: "byte list \<Rightarrow> raw_params \<Rightarrow> raw_params \<times> byte list" where
  "read_params f p =
     (let (bs, f') = fread 96 f in (of_cells (cells_of_bytes (store bs (params_bytes p))), f'))"

subsection \<open>The world of the file functions\<close>

text \<open>
  What \<^verbatim>\<open>LoadWaveParams\<close> and \<^verbatim>\<open>SaveWaveParams\<close> see and change: the files by name,
  whether \<^verbatim>\<open>fopen(name, "wb")\<close> succeeds, the lines printed so far, and the global
  \<^verbatim>\<open>volumeValue\<close> (a \<^verbatim>\<open>float\<close> cell, which the .sfs reader overwrites).
\<close>

datatype diagnostic =
  SfsVersionNotSupported string
| WrongRfxVersion string cell
| RfxNotValid string

record world =
  files :: "string \<rightharpoonup> byte list"
  can_create :: "string \<Rightarrow> bool"
  stdout :: "diagnostic list"
  volumeValue :: cell

text \<open>
  Two locals of the .rfx reader are not initialised before \<^verbatim>\<open>fread\<close> writes into them
  (\<^verbatim>\<open>unsigned char signature[5]\<close> and \<^verbatim>\<open>int version\<close>); what they hold before is
  a parameter.
\<close>

record indeterminate =
  signature_before :: cell
  version_before :: cell

definition zero_raw :: raw_params where
  "zero_raw = of_cells (replicate 24 0)"

definition rfx_signature :: "byte list" where
  "rfx_signature = [0x72, 0x46, 0x58, 0x20]"

subsection \<open>LoadWaveParams\<close>

text \<open>
  The test \<^verbatim>\<open>IsFileExtension(GetExtension(fileName), ext)\<close> is made of two raylib
  functions; it is the parameter \<open>has_ext\<close>. The body of the .sfs branch, for an accepted
  version: the fields in file order, \<^verbatim>\<open>volumeValue\<close> set to 0.5 and read only from a
  version 102 file, two legacy fields read and dropped (the second is one byte).
\<close>

definition load_sfs :: "cell \<Rightarrow> raw_params \<Rightarrow> cell \<Rightarrow> byte list \<Rightarrow> raw_params \<times> cell" where
  "load_sfs version p vol f =
     (let (c, f) = read_cell f (waveTypeValue p); p = p\<lparr>waveTypeValue := c\<rparr>;
          vol = 0x3F000000;
          (vol, f) = (if version = 102 then read_cell f vol else (vol, f));
          (c, f) = read_cell f (startFrequencyValue p); p = p\<lparr>startFrequencyValue := c\<rparr>;
          (c, f) = read_cell f (minFrequencyValue p); p = p\<lparr>minFrequencyValue := c\<rparr>;
          (c, f) = read_cell f (slideValue p); p = p\<lparr>slideValue := c\<rparr>;
          (p, f) = (if sint version \<ge> 101
                    then (let (c, f) = read_cell f (deltaSlideValue p)
                          in (p\<lparr>deltaSlideValue := c\<rparr>, f))
                    else (p, f));
          (c, f) = read_cell f (squareDutyValue p); p = p\<lparr>squareDutyValue := c\<rparr>;
          (c, f) = read_cell f (dutySweepValue p); p = p\<lparr>dutySweepValue := c\<rparr>;
          (c, f) = read_cell f (vibratoDepthValue p); p = p\<lparr>vibratoDepthValue := c\<rparr>;
          (c, f) = read_cell f (vibratoSpeedValue p); p = p\<lparr>vibratoSpeedValue := c\<rparr>;
          (vibratoPhaseDelay, f) = read_cell f 0;
          (c, f) = read_cell f (attackTimeValue p); p = p\<lparr>attackTimeValue := c\<rparr>;
          (c, f) = read_cell f (sustainTimeValue p); p = p\<lparr>sustainTimeValue := c\<rparr>;
          (c, f) = read_cell f (decayTimeValue p); p = p\<lparr>decayTimeValue := c\<rparr>;
          (c, f) = read_cell f (sustainPunchValue p); p = p\<lparr>sustainPunchValue := c\<rparr>;
          (filterOn, f) = fread 1 f;
          (c, f) = read_cell f (lpfResonanceValue p); p = p\<lparr>lpfResonanceValue := c\<rparr>;
          (c, f) = read_cell f (lpfCutoffValue p); p = p\<lparr>lpfCutoffValue := c\<rparr>;
          (c, f) = read_cell f (lpfCutoffSweepValue p); p = p\<lparr>lpfCutoffSweepValue := c\<rparr>;
          (c, f) = read_cell f (hpfCutoffValue p); p = p\<lparr>hpfCutoffValue := c\<rparr>;
          (c, f) = read_cell f (hpfCutoffSweepValue p); p = p\<lparr>hpfCutoffSweepValue := c\<rparr>;
          (c, f) = read_cell f (phaserOffsetValue p); p = p\<lparr>phaserOffsetValue := c\<rparr>;
          (c, f) = read_cell f (phaserSweepValue p); p = p\<lparr>phaserSweepValue := c\<rparr>;
          (c, f) = read_cell f (repeatSpeedValue p); p = p\<lparr>repeatSpeedValue := c\<rparr>;
          (p, f) = (if sint version \<ge> 101
                    then (let (c, f) = read_cell f (changeSpeedValue p);
                              p = p\<lparr>changeSpeedValue := c\<rparr>;
                              (c, f) = read_cell f (changeAmountValue p)
                          in (p\<lparr>changeAmountValue := c\<rparr>, f))
                    else (p, f))
      in (p, vol))"

definition LoadWaveParams ::
  "(string \<Rightarrow> string \<Rightarrow> bool) \<Rightarrow> indeterminate \<Rightarrow> string \<Rightarrow> world \<Rightarrow> raw_params \<times> world" where
  "LoadWaveParams has_ext junk fileName w =
     (let p = zero_raw in
      if has_ext fileName ''.sfs'' then
        (case files w fileName of
           None \<Rightarrow> (p, w)
         | Some sfsFile \<Rightarrow>
             (let (version, f) = read_cell sfsFile 0 in
              if version = 100 \<or> version = 101 \<or> version = 102
              then (let (p, vol) = load_sfs version p (volumeValue w) f
                    in (p, w\<lparr>volumeValue := vol\<rparr>))
              else (p, w\<lparr>stdout := stdout w @ [SfsVersionNotSupported fileName]\<rparr>)))
      else if has_ext fileName ''.rfx'' then
        (case files w fileName of
           None \<Rightarrow> (p, w)
         | Some rfxFile \<Rightarrow>
             (let (bs, f) = fread 4 rfxFile;
                  signature = store bs (bytes_of_cell (signature_before junk))
              in if signature ! 0 = 0x72 \<and> signature ! 1 = 0x46
                    \<and> signature ! 2 = 0x58 \<and> signature ! 3 = 0x20
                 then (let (version, f) = read_cell f (version_before junk)
                       in if version = 100
                          then (p, w\<lparr>stdout := stdout w @ [WrongRfxVersion fileName version]\<rparr>)
                          else if version = 120
                          then (let (p, f) = read_params f p in (p, w))
                          else (p, w))
                 else (p, w\<lparr>stdout := stdout w @ [RfxNotValid fileName]\<rparr>)))
      else (p, w))"

subsection \<open>SaveWaveParams\<close>

text \<open>
  Only the .rfx branch is live in the source (the .sfs writer is commented out): the
  signature, the version 120 as an \<^verbatim>\<open>unsigned int\<close>, the record. The three writes are
  taken to succeed once the file is open.
\<close>

definition TOOL_VERSION_TEXT_BINARY :: cell where
  "TOOL_VERSION_TEXT_BINARY = 120"

definition SaveWaveParams :: "(string \<Rightarrow> string \<Rightarrow> bool) \<Rightarrow> raw_params \<Rightarrow> string \<Rightarrow> world \<Rightarrow> world" where
  "SaveWaveParams has_ext p fileName w =
     (if has_ext fileName ''.rfx''
      then (if can_create w fileName
            then (let signature = rfx_signature;
                      version = TOOL_VERSION_TEXT_BINARY;
                      rfxFile = [];
                      rfxFile = rfxFile @ signature;
                      rfxFile = rfxFile @ bytes_of_cell version;
                      rfxFile = rfxFile @ params_bytes p
                  in w\<lparr>files := (files w)(fileName \<mapsto> rfxFile)\<rparr>)
            else w)
      else w)"

text \<open>A sample instance of the extension test, to run the file functions on.\<close>

definition ends_with :: "string \<Rightarrow> string \<Rightarrow> bool" where
  "ends_with name ext = (drop (length name - length ext) name = ext)"

text \<open>A world with no file, in which every file can be created, and locals holding zero.\<close>

definition empty_world :: world where
  "empty_world = \<lparr>files = Map.empty, can_create = (\<lambda>_. True), stdout = [], volumeValue = 0\<rparr>"

definition zero_junk :: indeterminate where
  "zero_junk = \<lparr>signature_before = 0, version_before = 0\<rparr>"

section \<open>GenerateWave\<close>

subsection \<open>The generator's locals\<close>

text \<open>
  The locals of \<^verbatim>\<open>GenerateWave\<close>, under their names in the source, with the output buffer
  and the state of the C library's generator. The arrays are maps from indices: the
  phaser buffer has 1024 entries and is only indexed through \<^verbatim>\<open>& 1023\<close>; the output
  buffer has room for \<^verbatim>\<open>MAX_WAVE_LENGTH_SECONDS*WAVE_SAMPLE_RATE\<close> samples and is only
  written at the loop index. \<^verbatim>\<open>int\<close> locals are unbounded integers: the counters stay
  below the loop bound, and the model does not follow the code into signed overflow.
\<close>

record 'g synth =
  phase :: int
  fperiod :: cfloat
  fmaxperiod :: cfloat
  fslide :: cfloat
  fdslide :: cfloat
  period :: int
  squareDuty :: cfloat
  squareSlide :: cfloat
  envelopeStage :: nat
  envelopeTime :: int
  envelopeLength :: "int list"
  envelopeVolume :: cfloat
  fphase :: cfloat
  fdphase :: cfloat
  iphase :: int
  phaserBuffer :: "nat \<Rightarrow> cfloat"
  ipp :: int
  noiseBuffer :: "cfloat list"
  fltp :: cfloat
  fltdp :: cfloat
  fltw :: cfloat
  fltwd :: cfloat
  fltdmp :: cfloat
  fltphp :: cfloat
  flthp :: cfloat
  flthpd :: cfloat
  vibratoPhase :: cfloat
  vibratoSpeed :: cfloat
  vibratoAmplitude :: cfloat
  repeatTime :: int
  repeatLimit :: int
  arpeggioTime :: int
  arpeggioLimit :: int
  arpeggioModulation :: cfloat
  buffer :: "nat \<Rightarrow> cfloat"
  generatingSample :: bool
  crand :: 'g

definition MAX_WAVE_LENGTH_SECONDS :: nat where "MAX_WAVE_LENGTH_SECONDS = 10"
definition WAVE_SAMPLE_RATE :: nat where "WAVE_SAMPLE_RATE = 44100"
definition MAX_SUPERSAMPLING :: nat where "MAX_SUPERSAMPLING = 8"
definition SAMPLE_SCALE_COEFICIENT :: cfloat where "SAMPLE_SCALE_COEFICIENT = Fin 0.2"

text \<open>The declarations: every local starts as zero, the buffer comes from \<^verbatim>\<open>calloc\<close>.\<close>

definition declared :: "'g \<Rightarrow> 'g synth" where
  "declared g =
     \<lparr>phase = 0, fperiod = Fin 0, fmaxperiod = Fin 0, fslide = Fin 0, fdslide = Fin 0,
      period = 0, squareDuty = Fin 0, squareSlide = Fin 0, envelopeStage = 0,
      envelopeTime = 0, envelopeLength = [0, 0, 0], envelopeVolume = Fin 0,
      fphase = Fin 0, fdphase = Fin 0, iphase = 0, phaserBuffer = (\<lambda>_. Fin 0), ipp = 0,
      noiseBuffer = replicate 32 (Fin 0), fltp = Fin 0, fltdp = Fin 0, fltw = Fin 0,
      fltwd = Fin 0, fltdmp = Fin 0, fltphp = Fin 0, flthp = Fin 0, flthpd = Fin 0,
      vibratoPhase = Fin 0, vibratoSpeed = Fin 0, vibratoAmplitude = Fin 0,
      repeatTime = 0, repeatLimit = 0, arpeggioTime = 0, arpeggioLimit = 0,
      arpeggioModulation = Fin 0, buffer = (\<lambda>_. Fin 0), generatingSample = True,
      crand = g\<rparr>"

subsection \<open>Before the loop\<close>

text \<open>The two guards on the function's own copy of the parameters.\<close>

definition security_check :: "params \<Rightarrow> params" where
  "security_check p =
     (let p = (if minFrequencyValue p > startFrequencyValue p
               then p\<lparr>minFrequencyValue := startFrequencyValue p\<rparr> else p);
          p = (if slideValue p < deltaSlideValue p
               then p\<lparr>slideValue := deltaSlideValue p\<rparr> else p)
      in p)"

text \<open>\<^verbatim>\<open>for (int i = 0; i < 32; i++) noiseBuffer[i] = GetRandomFloat(2.0f) - 1.0f;\<close>\<close>

fun fill_noise :: "'g libc \<Rightarrow> nat \<Rightarrow> 'g \<Rightarrow> cfloat list \<times> 'g" where
  "fill_noise L 0 g = ([], g)"
| "fill_noise L (Suc n) g =
     (let (u, g) = frnd L (Fin 2) g;
          (rest, g) = fill_noise L n g
      in ((u - Fin 1) # rest, g))"

definition reset_sample_parameters :: "params \<Rightarrow> 'g synth \<Rightarrow> 'g synth" where
  "reset_sample_parameters p s =
     (let s = s\<lparr>fperiod := Fin 100 / (startFrequencyValue p * startFrequencyValue p + Fin 0.001)\<rparr>;
          s = s\<lparr>period := to_int (fperiod s)\<rparr>;
          s = s\<lparr>fmaxperiod := Fin 100 / (minFrequencyValue p * minFrequencyValue p + Fin 0.001)\<rparr>;
          s = s\<lparr>fslide := Fin 1 - powf (slideValue p) 3 * Fin 0.01\<rparr>;
          s = s\<lparr>fdslide := (- powf (deltaSlideValue p) 3) * Fin 0.000001\<rparr>;
          s = s\<lparr>squareDuty := Fin 0.5 - squareDutyValue p * Fin 0.5\<rparr>;
          s = s\<lparr>squareSlide := (- dutySweepValue p) * Fin 0.00005\<rparr>;
          s = (if changeAmountValue p \<ge> Fin 0
               then s\<lparr>arpeggioModulation := Fin 1 - powf (changeAmountValue p) 2 * Fin 0.9\<rparr>
               else s\<lparr>arpeggioModulation := Fin 1 + powf (changeAmountValue p) 2 * Fin 10\<rparr>);
          s = s\<lparr>arpeggioLimit := to_int (powf (Fin 1 - changeSpeedValue p) 2 * Fin 20000 + Fin 32)\<rparr>;
          s = (if feq (changeSpeedValue p) (Fin 1) then s\<lparr>arpeggioLimit := 0\<rparr> else s)
      in s)"

definition reset_filter_parameters :: "params \<Rightarrow> 'g synth \<Rightarrow> 'g synth" where
  "reset_filter_parameters p s =
     (let s = s\<lparr>fltw := powf (lpfCutoffValue p) 3 * Fin 0.1\<rparr>;
          s = s\<lparr>fltwd := Fin 1 + lpfCutoffSweepValue p * Fin 0.0001\<rparr>;
          s = s\<lparr>fltdmp := Fin 5 / (Fin 1 + powf (lpfResonanceValue p) 2 * Fin 20)
                             * (Fin 0.01 + fltw s)\<rparr>;
          s = (if fltdmp s > Fin 0.8 then s\<lparr>fltdmp := Fin 0.8\<rparr> else s);
          s = s\<lparr>flthp := powf (hpfCutoffValue p) 2 * Fin 0.1\<rparr>;
          s = s\<lparr>flthpd := Fin 1 + hpfCutoffSweepValue p * Fin 0.0003\<rparr>
      in s)"

definition reset_vibrato :: "params \<Rightarrow> 'g synth \<Rightarrow> 'g synth" where
  "reset_vibrato p s =
     (let s = s\<lparr>vibratoSpeed := powf (vibratoSpeedValue p) 2 * Fin 0.01\<rparr>;
          s = s\<lparr>vibratoAmplitude := vibratoDepthValue p * Fin 0.5\<rparr>
      in s)"

definition reset_envelope :: "params \<Rightarrow> 'g synth \<Rightarrow> 'g synth" where
  "reset_envelope p s =
     (let s = s\<lparr>envelopeLength := (envelopeLength s)
                  [0 := to_int (attackTimeValue p * attackTimeValue p * Fin 100000)]\<rparr>;
          s = s\<lparr>envelopeLength := (envelopeLength s)
                  [1 := to_int (sustainTimeValue p * sustainTimeValue p * Fin 100000)]\<rparr>;
          s = s\<lparr>envelopeLength := (envelopeLength s)
                  [2 := to_int (decayTimeValue p * decayTimeValue p * Fin 100000)]\<rparr>
      in s)"

definition reset_phaser :: "params \<Rightarrow> 'g synth \<Rightarrow> 'g synth" where
  "reset_phaser p s =
     (let s = s\<lparr>fphase := powf (phaserOffsetValue p) 2 * Fin 1020\<rparr>;
          s = (if phaserOffsetValue p < Fin 0 then s\<lparr>fphase := - fphase s\<rparr> else s);
          s = s\<lparr>fdphase := powf (phaserSweepValue p) 2 * Fin 1\<rparr>;
          s = (if phaserSweepValue p < Fin 0 then s\<lparr>fdphase := - fdphase s\<rparr> else s);
          s = s\<lparr>iphase := \<bar>to_int (fphase s)\<bar>\<rparr>
      in s)"

definition reset_noise_and_repeat :: "'g libc \<Rightarrow> params \<Rightarrow> 'g synth \<Rightarrow> 'g synth" where
  "reset_noise_and_repeat L p s =
     (let (noise, g) = fill_noise L 32 (crand s);
          s = s\<lparr>noiseBuffer := noise, crand := g\<rparr>;
          s = s\<lparr>repeatLimit := to_int (powf (Fin 1 - repeatSpeedValue p) 2 * Fin 20000 + Fin 32)\<rparr>;
          s = (if feq (repeatSpeedValue p) (Fin 0) then s\<lparr>repeatLimit := 0\<rparr> else s)
      in s)"

text \<open>
  The state at the head of the loop, for the function's copy \<open>p\<close> of the parameters
  (already guarded) and the generator state \<open>g\<close> (already seeded when the seed asks
  for it).
\<close>

definition initial :: "'g libc \<Rightarrow> params \<Rightarrow> 'g \<Rightarrow> 'g synth" where
  "initial L p g =
     (let s = declared g;
          s = reset_sample_parameters p s;
          s = reset_filter_parameters p s;
          s = reset_vibrato p s;
          s = reset_envelope p s;
          s = reset_phaser p s;
          s = reset_noise_and_repeat L p s
      in s)"

subsection \<open>One pass of the loop body\<close>

text \<open>
  The repeat block recomputes the sample parameters; the source writes the
  computation out a second time, and so does the model.
\<close>

definition repeat_step :: "params \<Rightarrow> 'g synth \<Rightarrow> 'g synth" where
  "repeat_step p s =
     (let s = s\<lparr>repeatTime := repeatTime s + 1\<rparr>
      in if repeatLimit s \<noteq> 0 \<and> repeatTime s \<ge> repeatLimit s
         then (let s = s\<lparr>repeatTime := 0\<rparr>;
                   s = s\<lparr>fperiod := Fin 100 / (startFrequencyValue p * startFrequencyValue p + Fin 0.001)\<rparr>;
                   s = s\<lparr>period := to_int (fperiod s)\<rparr>;
                   s = s\<lparr>fmaxperiod := Fin 100 / (minFrequencyValue p * minFrequencyValue p + Fin 0.001)\<rparr>;
                   s = s\<lparr>fslide := Fin 1 - powf (slideValue p) 3 * Fin 0.01\<rparr>;
                   s = s\<lparr>fdslide := (- powf (deltaSlideValue p) 3) * Fin 0.000001\<rparr>;
                   s = s\<lparr>squareDuty := Fin 0.5 - squareDutyValue p * Fin 0.5\<rparr>;
                   s = s\<lparr>squareSlide := (- dutySweepValue p) * Fin 0.00005\<rparr>;
                   s = (if changeAmountValue p \<ge> Fin 0
                        then s\<lparr>arpeggioModulation := Fin 1 - powf (changeAmountValue p) 2 * Fin 0.9\<rparr>
                        else s\<lparr>arpeggioModulation := Fin 1 + powf (changeAmountValue p) 2 * Fin 10\<rparr>);
                   s = s\<lparr>arpeggioTime := 0\<rparr>;
                   s = s\<lparr>arpeggioLimit := to_int (powf (Fin 1 - changeSpeedValue p) 2 * Fin 20000 + Fin 32)\<rparr>;
                   s = (if feq (changeSpeedValue p) (Fin 1) then s\<lparr>arpeggioLimit := 0\<rparr> else s)
               in s)
         else s)"

text \<open>Frequency envelopes and arpeggios, with the stop at the frequency floor.\<close>

definition frequency_step :: "params \<Rightarrow> 'g synth \<Rightarrow> 'g synth" where
  "frequency_step p s =
     (let s = s\<lparr>arpeggioTime := arpeggioTime s + 1\<rparr>;
          s = (if arpeggioLimit s \<noteq> 0 \<and> arpeggioTime s \<ge> arpeggioLimit s
               then (let s = s\<lparr>arpeggioLimit := 0\<rparr>
                     in s\<lparr>fperiod := fperiod s * arpeggioModulation s\<rparr>)
               else s);
          s = s\<lparr>fslide := fslide s + fdslide s\<rparr>;
          s = s\<lparr>fperiod := fperiod s * fslide s\<rparr>;
          s = (if fperiod s > fmaxperiod s
               then (let s = s\<lparr>fperiod := fmaxperiod s\<rparr>
                     in if minFrequencyValue p > Fin 0 then s\<lparr>generatingSample := False\<rparr> else s)
               else s)
      in s)"

text \<open>The vibrato gives the local \<^verbatim>\<open>rfperiod\<close>; the period is its integer part, at least 8.\<close>

definition period_step :: "'g synth \<Rightarrow> 'g synth" where
  "period_step s =
     (let rfperiod = fperiod s;
          (s, rfperiod) =
            (if vibratoAmplitude s > Fin 0
             then (let s = s\<lparr>vibratoPhase := vibratoPhase s + vibratoSpeed s\<rparr>
                   in (s, fperiod s * (Fin 1 + sinf (vibratoPhase s) * vibratoAmplitude s)))
             else (s, rfperiod));
          s = s\<lparr>period := to_int rfperiod\<rparr>;
          s = (if period s < 8 then s\<lparr>period := 8\<rparr> else s)
      in s)"

definition duty_step :: "'g synth \<Rightarrow> 'g synth" where
  "duty_step s =
     (let s = s\<lparr>squareDuty := squareDuty s + squareSlide s\<rparr>;
          s = (if squareDuty s < Fin 0 then s\<lparr>squareDuty := Fin 0\<rparr> else s);
          s = (if squareDuty s > Fin 0.5 then s\<lparr>squareDuty := Fin 0.5\<rparr> else s)
      in s)"

text \<open>
  The volume envelope. \<^verbatim>\<open>(float)envelopeTime/envelopeLength[k]\<close> is a floating-point
  division: by a zero length it gives a NaN when the time is zero too.
\<close>

definition envelope_step :: "params \<Rightarrow> 'g synth \<Rightarrow> 'g synth" where
  "envelope_step p s =
     (let s = s\<lparr>envelopeTime := envelopeTime s + 1\<rparr>;
          s = (if envelopeTime s > envelopeLength s ! envelopeStage s
               then (let s = s\<lparr>envelopeTime := 0\<rparr>;
                         s = s\<lparr>envelopeStage := envelopeStage s + 1\<rparr>
                     in if envelopeStage s = 3 then s\<lparr>generatingSample := False\<rparr> else s)
               else s);
          s = (if envelopeStage s = 0
               then s\<lparr>envelopeVolume := of_int_f (envelopeTime s) / of_int_f (envelopeLength s ! 0)\<rparr>
               else s);
          s = (if envelopeStage s = 1
               then s\<lparr>envelopeVolume :=
                        Fin 1 + powf (Fin 1 - of_int_f (envelopeTime s) / of_int_f (envelopeLength s ! 1)) 1
                                * Fin 2 * sustainPunchValue p\<rparr>
               else s);
          s = (if envelopeStage s = 2
               then s\<lparr>envelopeVolume :=
                        Fin 1 - of_int_f (envelopeTime s) / of_int_f (envelopeLength s ! 2)\<rparr>
               else s)
      in s)"

definition phaser_step :: "'g synth \<Rightarrow> 'g synth" where
  "phaser_step s =
     (let s = s\<lparr>fphase := fphase s + fdphase s\<rparr>;
          s = s\<lparr>iphase := \<bar>to_int (fphase s)\<bar>\<rparr>;
          s = (if iphase s > 1023 then s\<lparr>iphase := 1023\<rparr> else s)
      in s)"

definition hpf_step :: "'g synth \<Rightarrow> 'g synth" where
  "hpf_step s =
     (if \<not> feq (flthpd s) (Fin 0)
      then (let s = s\<lparr>flthp := flthp s * flthpd s\<rparr>;
                s = (if flthp s < Fin 0.00001 then s\<lparr>flthp := Fin 0.00001\<rparr> else s);
                s = (if flthp s > Fin 0.1 then s\<lparr>flthp := Fin 0.1\<rparr> else s)
            in s)
      else s)"

text \<open>
  One of the eight passes of the supersampling loop, on the state and the accumulator
  \<^verbatim>\<open>ssample\<close>, in the blocks the source marks: the phase and the noise table, the
  base waveform, the low-pass filter (the local \<^verbatim>\<open>pp\<close> is the filter state before it),
  the high-pass filter, the phaser, the accumulation. Phase and period are never
  negative here, so C's \<^verbatim>\<open>%\<close> and \<^verbatim>\<open>/\<close> are \<open>mod\<close> and \<open>div\<close>.
\<close>

definition base_waveform :: "params \<Rightarrow> 'g synth \<Rightarrow> cfloat" where
  "base_waveform p s =
     (let sample = Fin 0;
          fp = of_int_f (phase s) / of_int_f (period s)
      in if waveTypeValue p = 0 then (if fp < squareDuty s then Fin 0.5 else Fin (- 0.5))
         else if waveTypeValue p = 1 then Fin 1 - fp * Fin 2
         else if waveTypeValue p = 2 then sinf (fp * Fin 2 * Fin pi)
         else if waveTypeValue p = 3 then noiseBuffer s ! nat (phase s * 32 div period s)
         else sample)"

definition oscillator_pass :: "'g libc \<Rightarrow> params \<Rightarrow> 'g synth \<Rightarrow> 'g synth" where
  "oscillator_pass L p s =
     (let s = s\<lparr>phase := phase s + 1\<rparr>
      in if phase s \<ge> period s
         then (let s = s\<lparr>phase := phase s mod period s\<rparr>
               in if waveTypeValue p = 3
                  then (let (noise, g) = fill_noise L 32 (crand s)
                        in s\<lparr>noiseBuffer := noise, crand := g\<rparr>)
                  else s)
         else s)"

definition lp_filter :: "params \<Rightarrow> cfloat \<Rightarrow> 'g synth \<Rightarrow> 'g synth" where
  "lp_filter p sample s =
     (let s = s\<lparr>fltw := fltw s * fltwd s\<rparr>;
          s = (if fltw s < Fin 0 then s\<lparr>fltw := Fin 0\<rparr> else s);
          s = (if fltw s > Fin 0.1 then s\<lparr>fltw := Fin 0.1\<rparr> else s);
          s = (if \<not> feq (lpfCutoffValue p) (Fin 1)
               then (let s = s\<lparr>fltdp := fltdp s + (sample - fltp s) * fltw s\<rparr>
                     in s\<lparr>fltdp := fltdp s - fltdp s * fltdmp s\<rparr>)
               else (let s = s\<lparr>fltp := sample\<rparr>
                     in s\<lparr>fltdp := Fin 0\<rparr>));
          s = s\<lparr>fltp := fltp s + fltdp s\<rparr>
      in s)"

definition hp_filter :: "cfloat \<Rightarrow> 'g synth \<Rightarrow> 'g synth" where
  "hp_filter pp s =
     (let s = s\<lparr>fltphp := fltphp s + (fltp s - pp)\<rparr>;
          s = s\<lparr>fltphp := fltphp s - fltphp s * flthp s\<rparr>
      in s)"

definition phaser :: "cfloat \<Rightarrow> 'g synth \<Rightarrow> 'g synth \<times> cfloat" where
  "phaser sample s =
     (let s = s\<lparr>phaserBuffer := (phaserBuffer s)(nat (ipp s AND 1023) := sample)\<rparr>;
          sample = sample + phaserBuffer s (nat ((ipp s - iphase s + 1024) AND 1023));
          s = s\<lparr>ipp := (ipp s + 1) AND 1023\<rparr>
      in (s, sample))"

definition supersample_pass :: "'g libc \<Rightarrow> params \<Rightarrow> 'g synth \<times> cfloat \<Rightarrow> 'g synth \<times> cfloat" where
  "supersample_pass L p = (\<lambda>(s, ssample).
     (let s = oscillator_pass L p s;
          sample = base_waveform p s;
          pp = fltp s;
          s = lp_filter p sample s;
          s = hp_filter pp s;
          sample = fltphp s;
          (s, sample) = phaser sample s;
          ssample = ssample + sample * envelopeVolume s
      in (s, ssample)))"

definition supersampling :: "'g libc \<Rightarrow> params \<Rightarrow> 'g synth \<Rightarrow> 'g synth \<times> cfloat" where
  "supersampling L p s = (supersample_pass L p ^^ MAX_SUPERSAMPLING) (s, Fin 0)"

text \<open>The whole body for the loop index \<open>i\<close>: the sample is scaled, clamped and stored.\<close>

definition sample_step :: "'g libc \<Rightarrow> params \<Rightarrow> nat \<Rightarrow> 'g synth \<Rightarrow> 'g synth" where
  "sample_step L p i s =
     (let s = repeat_step p s;
          s = frequency_step p s;
          s = period_step s;
          s = duty_step s;
          s = envelope_step p s;
          s = phaser_step s;
          s = hpf_step s;
          (s, ssample) = supersampling L p s;
          ssample = (ssample / of_int_f (int MAX_SUPERSAMPLING)) * SAMPLE_SCALE_COEFICIENT;
          ssample = (if ssample > Fin 1 then Fin 1 else ssample);
          ssample = (if ssample < Fin (- 1) then Fin (- 1) else ssample)
      in s\<lparr>buffer := (buffer s)(i := ssample)\<rparr>)"

subsection \<open>The loop and the wave returned\<close>

text \<open>
  \<^verbatim>\<open>for (int i = 0; i < MAX_WAVE_LENGTH_SECONDS*WAVE_SAMPLE_RATE; i++)\<close>, left through
  \<^verbatim>\<open>break\<close> once \<^verbatim>\<open>generatingSample\<close> is false; \<^verbatim>\<open>sampleCount\<close> is assigned only there.
  The result is the index the loop stopped at, \<^verbatim>\<open>sampleCount\<close>, and the locals.
\<close>

function gen_loop :: "'g libc \<Rightarrow> params \<Rightarrow> nat \<Rightarrow> int \<Rightarrow> 'g synth \<Rightarrow> nat \<times> int \<times> 'g synth" where
  "gen_loop L p i sampleCount s =
     (if i < MAX_WAVE_LENGTH_SECONDS * WAVE_SAMPLE_RATE
      then (if \<not> generatingSample s
            then (i, int i, s)
            else gen_loop L p (i + 1) sampleCount (sample_step L p i s))
      else (i, sampleCount, s))"
  by pat_completeness auto
termination
  by (relation "measure (\<lambda>(L, p, i, c, s). MAX_WAVE_LENGTH_SECONDS * WAVE_SAMPLE_RATE - i)") auto

record Wave =
  sampleCount :: int
  sampleRate :: int
  sampleSize :: int
  channels :: int
  data :: "cfloat list"

text \<open>
  \<^verbatim>\<open>GenerateWave(WaveParams params)\<close> receives the record by value. It reads and writes
  one global, the generator of the C library; the globals are passed through to show
  what it leaves alone. The data returned are the first \<^verbatim>\<open>sampleCount\<close> samples of the
  buffer.
\<close>

definition render :: "'g libc \<Rightarrow> params \<Rightarrow> 'g \<Rightarrow> Wave \<times> 'g" where
  "render L p g =
     (let p = security_check p;
          s = initial L p g;
          (i, sampleCount, s) = gen_loop L p 0 0 s;
          genWave = \<lparr>sampleCount = sampleCount, sampleRate = int WAVE_SAMPLE_RATE,
                     sampleSize = 32, channels = 1,
                     data = map (buffer s) [0..<nat sampleCount]\<rparr>
      in (genWave, crand s))"

definition GenerateWave :: "'g libc \<Rightarrow> params \<Rightarrow> 'g globals \<Rightarrow> Wave \<times> 'g globals" where
  "GenerateWave L p G =
     (let g = (if randSeed p \<noteq> 0 then srand L (randSeed p) else rng G);
          (genWave, g) = render L p g
      in (genWave, G\<lparr>rng := g\<rparr>))"

subsection \<open>Views of the locals used in the proofs\<close>

text \<open>
  The locals that the supersampling loop and the store into the buffer leave alone and
  that the properties below follow through the loop body.
\<close>

definition outer ::
  "'g synth \<Rightarrow> nat \<times> int \<times> int list \<times> bool \<times> int \<times> int \<times> int \<times> cfloat \<times> cfloat \<times> cfloat \<times> cfloat \<times> cfloat" where
  "outer s = (envelopeStage s, envelopeTime s, envelopeLength s, generatingSample s,
              repeatTime s, repeatLimit s, period s, squareDuty s, flthp s, flthpd s,
              fltdmp s, envelopeVolume s)"

text \<open>The envelope's stage and time after one pass of the body, from those before.\<close>

definition envelope_next :: "int list \<Rightarrow> nat \<times> int \<Rightarrow> nat \<times> int" where
  "envelope_next len = (\<lambda>(stage, time).
     if time + 1 > len ! stage then (stage + 1, 0) else (stage, time + 1))"

text \<open>What a clamp guarantees: the value is in the interval, unless it is a NaN.\<close>

definition inside :: "cfloat \<Rightarrow> cfloat \<Rightarrow> cfloat \<Rightarrow> bool" where
  "inside lo hi x = (x = NaN \<or> (lo \<le> x \<and> x \<le> hi))"

text \<open>
  The states the loop passes through: \<open>reached L p g i s\<close> holds when \<open>s\<close> are the locals
  at the head of the loop with index \<open>i\<close>, for the copy \<open>p\<close> of the parameters and the
  generator state \<open>g\<close> the function starts from.
\<close>

inductive reached :: "'g libc \<Rightarrow> params \<Rightarrow> 'g \<Rightarrow> nat \<Rightarrow> 'g synth \<Rightarrow> bool"
  for L :: "'g libc" and p :: params and g :: 'g where
  reached_initial: "reached L p g 0 (initial L p g)"
| reached_step:
    "reached L p g i s \<Longrightarrow> i < MAX_WAVE_LENGTH_SECONDS * WAVE_SAMPLE_RATE \<Longrightarrow> generatingSample s
     \<Longrightarrow> reached L p g (Suc i) (sample_step L p i s)"

subsection \<open>Sample inputs\<close>

text \<open>
  Parameter sets to run the generator on, each the zeroed record with a few fields set:
  a sustain of 3.0, which makes the sustain stage 900000 samples long; a seed of 7; a
  minimum frequency that is a NaN.
\<close>

definition long_sustain :: params where
  "long_sustain = zero_params\<lparr>sustainTimeValue := Fin 3\<rparr>"

definition seeded :: params where
  "seeded = zero_params\<lparr>randSeed := 7\<rparr>"

definition nan_frequency :: params where
  "nan_frequency = zero_params\<lparr>minFrequencyValue := NaN\<rparr>"

definition sample_globals :: "nat \<Rightarrow> nat globals" where
  "sample_globals g = \<lparr>params = zero_params, regenerate = False, rng = g\<rparr>"


text \<open>
  More sample inputs: start and minimum frequency out of order; a repeat speed of 1.0
  (a repeat every 32 samples) under a long sustain; a noise wave with seed 0, no
  low-pass filter and a short sustain.
\<close>

definition swapped_frequencies :: params where
  "swapped_frequencies = zero_params\<lparr>startFrequencyValue := Fin 0.2, minFrequencyValue := Fin 0.5\<rparr>"

definition repeating :: params where
  "repeating = zero_params\<lparr>sustainTimeValue := Fin 3, repeatSpeedValue := Fin 1\<rparr>"


text \<open>The locals after the first \<open>k\<close> passes of the loop body, when nothing stops the loop.\<close>

fun passes :: "'g libc \<Rightarrow> params \<Rightarrow> nat \<Rightarrow> 'g synth \<Rightarrow> 'g synth" where
  "passes L p 0 s = s"
| "passes L p (Suc k) s = sample_step L p k (passes L p k s)"

section \<open>Facts about the arithmetic and the draws\<close>

lemmas cfloat_ops =
  plus_cfloat_def minus_cfloat_def uminus_cfloat_def times_cfloat_def divide_cfloat_def
  less_cfloat_def less_eq_cfloat_def zero_cfloat_def one_cfloat_def feq_def of_int_f_def

lemma GetRandomValue_range:
  "mn \<le> mx \<Longrightarrow> mn \<le> fst (GetRandomValue L mn mx g) \<and> fst (GetRandomValue L mn mx g) \<le> mx"
proof -
  assume le: "mn \<le> mx"
  obtain r g' where r: "rand L g = (r, g')" by (cases "rand L g")
  have pos: "0 < mx - mn + 1" using le by simp
  have "0 \<le> int r mod (mx - mn + 1)" "int r mod (mx - mn + 1) < mx - mn + 1"
    using pos by (rule pos_mod_sign, rule pos_mod_bound)
  then show ?thesis using le by (simp add: GetRandomValue_def r)
qed


section \<open>ResetWaveParams\<close>

text \<open>
  C8. \<^verbatim>\<open>ResetWaveParams\<close> draws the seed with \<^verbatim>\<open>GetRandomValue(0x1, 0xFFFE)\<close>, so it
  lies in [1, 0xFFFE]; it seeds the C library's generator with that seed; and the record
  it leaves is exactly the documented defaults: wave type 0 (square), sustain 0.3,
  decay 0.4, start frequency 0.3, low-pass cutoff 1.0 and every other field 0, whatever
  the record held before.
\<close>

theorem ResetWaveParams_defaults:
  "fst (ResetWaveParams L p g) =
     \<lparr>randSeed = fst (GetRandomValue L 1 0xFFFE g), waveTypeValue = 0,
      attackTimeValue = Fin 0, sustainTimeValue = Fin 0.3, sustainPunchValue = Fin 0,
      decayTimeValue = Fin 0.4, startFrequencyValue = Fin 0.3, minFrequencyValue = Fin 0,
      slideValue = Fin 0, deltaSlideValue = Fin 0, vibratoDepthValue = Fin 0,
      vibratoSpeedValue = Fin 0, changeAmountValue = Fin 0, changeSpeedValue = Fin 0,
      squareDutyValue = Fin 0, dutySweepValue = Fin 0, repeatSpeedValue = Fin 0,
      phaserOffsetValue = Fin 0, phaserSweepValue = Fin 0, lpfCutoffValue = Fin 1,
      lpfCutoffSweepValue = Fin 0, lpfResonanceValue = Fin 0, hpfCutoffValue = Fin 0,
      hpfCutoffSweepValue = Fin 0\<rparr>
   \<and> 1 \<le> randSeed (fst (ResetWaveParams L p g))
   \<and> randSeed (fst (ResetWaveParams L p g)) \<le> 0xFFFE
   \<and> snd (ResetWaveParams L p g) = srand L (randSeed (fst (ResetWaveParams L p g)))"
proof -
  obtain s g1 where d: "GetRandomValue L 1 0xFFFE g = (s, g1)"
    by (cases "GetRandomValue L 1 0xFFFE g")
  have "1 \<le> s \<and> s \<le> 0xFFFE"
    using GetRandomValue_range [of 1 "0xFFFE" L g] by (simp add: d)
  then show ?thesis
    by (cases p) (simp add: ResetWaveParams_def d)
qed

section \<open>GenRandomize\<close>














section \<open>Parameter files\<close>

lemma cell_of_bytes_of_cell: "cell_of_bytes (bytes_of_cell w) = w"
  unfolding cell_of_bytes_def bytes_of_cell_def
proof (rule bit_word_eqI)
  fix n assume n: "n < LENGTH(32)"
  have c: "n < 8 \<or> (8 \<le> n \<and> n < 16) \<or> (16 \<le> n \<and> n < 24) \<or> (24 \<le> n \<and> n < 32)"
    using n by auto
  have e: "8 \<le> n \<Longrightarrow> 8 + (n - 8) = n" "16 \<le> n \<Longrightarrow> 16 + (n - 16) = n" "24 \<le> n \<Longrightarrow> 24 + (n - 24) = n"
    by simp_all
  show "bit (foldr (\<lambda>b w. ucast b OR push_bit 8 w)
          [ucast w, ucast (drop_bit 8 w), ucast (drop_bit 16 w), ucast (drop_bit 24 w) :: byte] (0::cell)) n
        = bit w n"
    using c n by (auto simp: bit_simps e)
qed

lemma length_bytes_of_cell: "length (bytes_of_cell w) = 4"
  by (simp add: bytes_of_cell_def)

lemma cells_of_bytes_concat: "cells_of_bytes (concat (map bytes_of_cell ws)) = ws"
proof (induction ws)
  case Nil
  show ?case by simp
next
  case (Cons w ws)
  have "cells_of_bytes (bytes_of_cell w @ concat (map bytes_of_cell ws))
        = cell_of_bytes (bytes_of_cell w) # cells_of_bytes (concat (map bytes_of_cell ws))"
    by (simp add: bytes_of_cell_def)
  then show ?case using Cons by (simp add: cell_of_bytes_of_cell)
qed

lemma of_cells_cells: "of_cells (cells p) = p"
  by (cases p) (simp add: of_cells_def cells_def)

lemma length_params_bytes: "length (params_bytes p) = 96"
  by (simp add: params_bytes_def cells_def length_concat length_bytes_of_cell)

lemma read_params_saved:
  "fst (read_params (params_bytes p) q) = p"
  by (simp add: read_params_def fread_def store_def length_params_bytes)
     (simp add: params_bytes_def cells_of_bytes_concat of_cells_cells)

lemma read_cell_saved:
  "read_cell (bytes_of_cell c @ f) c0 = (c, f)"
  by (simp add: read_cell_def fread_def store_def length_bytes_of_cell cell_of_bytes_of_cell)

lemma store_full: "length bs = length obj \<Longrightarrow> store bs obj = bs"
  by (simp add: store_def)

lemma LoadWaveParams_bad_signature:
  assumes "has_ext fileName ''.rfx''" and "\<not> has_ext fileName ''.sfs''"
    and "files w fileName = Some bs" and "4 \<le> length bs" and "take 4 bs \<noteq> rfx_signature"
  shows "LoadWaveParams has_ext junk fileName w
         = (zero_raw, w\<lparr>stdout := stdout w @ [RfxNotValid fileName]\<rparr>)"
proof -
  have len: "length (take 4 bs) = 4" using assms(4) by simp
  have st: "store (take 4 bs) (bytes_of_cell (signature_before junk)) = take 4 bs"
    by (rule store_full) (simp only: len length_bytes_of_cell)
  have "\<not> (take 4 bs ! 0 = 0x72 \<and> take 4 bs ! 1 = 0x46 \<and> take 4 bs ! 2 = 0x58 \<and> take 4 bs ! 3 = 0x20)"
  proof
    assume a: "take 4 bs ! 0 = 0x72 \<and> take 4 bs ! 1 = 0x46 \<and> take 4 bs ! 2 = 0x58 \<and> take 4 bs ! 3 = 0x20"
    have "take 4 bs = rfx_signature"
    proof (rule nth_equalityI)
      show "length (take 4 bs) = length rfx_signature" using len by (simp add: rfx_signature_def)
    next
      fix i assume "i < length (take 4 bs)"
      then have "i = 0 \<or> i = 1 \<or> i = 2 \<or> i = 3" using len by auto
      then show "take 4 bs ! i = rfx_signature ! i" using a by (auto simp: rfx_signature_def)
    qed
    then show False using assms(5) by simp
  qed
  then have "\<not> (bs ! 0 = 0x72 \<and> bs ! 1 = 0x46 \<and> bs ! 2 = 0x58 \<and> bs ! 3 = 0x20)"
    by simp
  then show ?thesis
    using assms(1-3)
    by (auto simp: LoadWaveParams_def fread_def st split: prod.splits)
qed

lemma LoadWaveParams_rfx_version:
  assumes "has_ext fileName ''.rfx''" and "\<not> has_ext fileName ''.sfs''"
    and "files w fileName = Some (rfx_signature @ bytes_of_cell v @ bs)"
  shows "LoadWaveParams has_ext junk fileName w =
           (if v = 100 then (zero_raw, w\<lparr>stdout := stdout w @ [WrongRfxVersion fileName v]\<rparr>)
            else if v = 120 then (fst (read_params bs zero_raw), w)
            else (zero_raw, w))"
proof -
  have sig: "fread 4 (rfx_signature @ bytes_of_cell v @ bs)
             = (rfx_signature, bytes_of_cell v @ bs)"
    by (simp add: fread_def rfx_signature_def)
  have st: "store rfx_signature (bytes_of_cell (signature_before junk)) = rfx_signature"
    by (rule store_full) (simp add: rfx_signature_def length_bytes_of_cell)
  have nth: "rfx_signature ! 0 = 0x72 \<and> rfx_signature ! 1 = 0x46
             \<and> rfx_signature ! 2 = 0x58 \<and> rfx_signature ! 3 = 0x20"
    by (simp add: rfx_signature_def)
  show ?thesis
    using assms nth
    by (simp add: LoadWaveParams_def sig st read_cell_saved split: prod.splits)
qed


text \<open>
  C3. Saving a record to a file whose name has the .rfx extension (and not the .sfs one,
  which the loader tests first) and which can be opened for writing, then loading that
  file, gives back the record, cell for cell, and prints nothing. The file holds the
  signature "rFX ", the version 120 and the 96 bytes of the record.
\<close>

theorem SaveWaveParams_LoadWaveParams:
  assumes "has_ext fileName ''.rfx''" and "\<not> has_ext fileName ''.sfs''"
    and "can_create w fileName"
  shows "LoadWaveParams has_ext junk fileName (SaveWaveParams has_ext p fileName w)
           = (p, SaveWaveParams has_ext p fileName w)
         \<and> files (SaveWaveParams has_ext p fileName w) fileName
           = Some (rfx_signature @ bytes_of_cell 120 @ params_bytes p)"
proof -
  let ?w = "SaveWaveParams has_ext p fileName w"
  have saved: "files ?w fileName
              = Some (rfx_signature @ bytes_of_cell 120 @ params_bytes p)"
    using assms by (simp add: SaveWaveParams_def TOOL_VERSION_TEXT_BINARY_def)
  show ?thesis
    using LoadWaveParams_rfx_version [of has_ext fileName ?w 120 "params_bytes p" junk]
      assms(1) assms(2) saved
    by (simp add: read_params_saved)
qed

theorem SaveWaveParams_LoadWaveParams_witness:
  "ends_with ''sound.rfx'' ''.rfx'' \<and> \<not> ends_with ''sound.rfx'' ''.sfs''
   \<and> can_create empty_world ''sound.rfx''
   \<and> fst (LoadWaveParams ends_with zero_junk ''sound.rfx''
        (SaveWaveParams ends_with (zero_raw\<lparr>waveTypeValue := 3, sustainTimeValue := 0x3E99999A\<rparr>)
           ''sound.rfx'' empty_world))
     = zero_raw\<lparr>waveTypeValue := 3, sustainTimeValue := 0x3E99999A\<rparr>"
proof -
  have a: "ends_with ''sound.rfx'' ''.rfx''" by (simp add: ends_with_def)
  have b: "\<not> ends_with ''sound.rfx'' ''.sfs''" by (simp add: ends_with_def)
  have c: "can_create empty_world ''sound.rfx''" by (simp add: empty_world_def)
  show ?thesis
    using a b c
      SaveWaveParams_LoadWaveParams [where has_ext = ends_with and fileName = "''sound.rfx''"
        and w = empty_world and junk = zero_junk
        and p = "zero_raw\<lparr>waveTypeValue := 3, sustainTimeValue := 0x3E99999A\<rparr>"]
    by simp
qed

text \<open>
  C5. The failing input: a file named sound.rfx that holds the signature "rFX " and
  the version 121. The loader returns the zeroed record and leaves the world as it
  was: nothing is printed. Only version 100 and a wrong signature are reported
  (\<open>LoadWaveParams_rfx_version\<close>, \<open>LoadWaveParams_bad_signature\<close>), while the .sfs
  branch reports every version it does not support.
\<close>

theorem LoadWaveParams_silent_on_version_121:
  "LoadWaveParams ends_with zero_junk ''sound.rfx''
     (empty_world\<lparr>files := [''sound.rfx'' \<mapsto> [0x72, 0x46, 0x58, 0x20, 121, 0, 0, 0]]\<rparr>)
   = (zero_raw,
      empty_world\<lparr>files := [''sound.rfx'' \<mapsto> [0x72, 0x46, 0x58, 0x20, 121, 0, 0, 0]]\<rparr>)
   \<and> stdout (snd (LoadWaveParams ends_with zero_junk ''sound.rfx''
        (empty_world\<lparr>files := [''sound.rfx'' \<mapsto> [0x72, 0x46, 0x58, 0x20, 121, 0, 0, 0]]\<rparr>)))
     = []"
  using LoadWaveParams_rfx_version [of ends_with "''sound.rfx''"
      "empty_world\<lparr>files := [''sound.rfx'' \<mapsto> [0x72, 0x46, 0x58, 0x20, 121, 0, 0, 0]]\<rparr>"
      121 "[]" zero_junk]
  by (simp add: ends_with_def rfx_signature_def bytes_of_cell_def empty_world_def)

section \<open>The loop body, block by block\<close>

lemma oscillator_pass_outer:
  "outer (oscillator_pass L p s) = outer s \<and> fltw (oscillator_pass L p s) = fltw s
   \<and> buffer (oscillator_pass L p s) = buffer s"
  by (simp add: oscillator_pass_def outer_def Let_def split: prod.splits)

lemma lp_filter_outer:
  "outer (lp_filter p x s) = outer s \<and> buffer (lp_filter p x s) = buffer s"
  by (simp add: lp_filter_def outer_def Let_def)

lemma hp_filter_outer:
  "outer (hp_filter pp s) = outer s \<and> fltw (hp_filter pp s) = fltw s
   \<and> buffer (hp_filter pp s) = buffer s"
  by (simp add: hp_filter_def outer_def Let_def)

lemma phaser_outer:
  "outer (fst (phaser x s)) = outer s \<and> fltw (fst (phaser x s)) = fltw s
   \<and> buffer (fst (phaser x s)) = buffer s"
  by (simp add: phaser_def outer_def Let_def)

lemma clamp_inside:
  fixes x :: cfloat
  assumes "lo \<le> hi"
  shows "inside (Fin lo) (Fin hi)
           (let y = (if x < Fin lo then Fin lo else x) in if y > Fin hi then Fin hi else y)"
  using assms by (cases x) (auto simp: inside_def cfloat_ops Let_def)

lemma lp_filter_fltw: "inside (Fin 0) (Fin 0.1) (fltw (lp_filter p x s))"
proof -
  have "fltw (lp_filter p x s)
        = (let y = (if fltw s * fltwd s < Fin 0 then Fin 0 else fltw s * fltwd s)
           in if y > Fin 0.1 then Fin 0.1 else y)"
    by (simp add: lp_filter_def Let_def)
  then show ?thesis using clamp_inside [of 0 "0.1" "fltw s * fltwd s"] by simp
qed

lemma supersample_pass_outer:
  "outer (fst (supersample_pass L p (s, a))) = outer s
   \<and> buffer (fst (supersample_pass L p (s, a))) = buffer s
   \<and> inside (Fin 0) (Fin 0.1) (fltw (fst (supersample_pass L p (s, a))))"
proof -
  let ?s1 = "oscillator_pass L p s"
  let ?s2 = "lp_filter p (base_waveform p ?s1) ?s1"
  let ?s3 = "hp_filter (fltp ?s1) ?s2"
  have e: "fst (supersample_pass L p (s, a)) = fst (phaser (fltphp ?s3) ?s3)"
    by (simp add: supersample_pass_def Let_def split: prod.splits)
  show ?thesis
    unfolding e
    using lp_filter_fltw [of p "base_waveform p ?s1" ?s1]
    by (simp add: phaser_outer hp_filter_outer lp_filter_outer oscillator_pass_outer)
qed

lemma supersample_funpow_outer:
  "outer (fst ((supersample_pass L p ^^ n) (s, a))) = outer s
   \<and> buffer (fst ((supersample_pass L p ^^ n) (s, a))) = buffer s
   \<and> (0 < n \<longrightarrow> inside (Fin 0) (Fin 0.1) (fltw (fst ((supersample_pass L p ^^ n) (s, a)))))"
proof (induction n)
  case 0
  show ?case by simp
next
  case (Suc n)
  obtain s' a' where e: "(supersample_pass L p ^^ n) (s, a) = (s', a')"
    by (cases "(supersample_pass L p ^^ n) (s, a)")
  show ?case using Suc supersample_pass_outer [of L p s' a'] by (simp add: e)
qed

lemma supersampling_outer:
  "outer (fst (supersampling L p s)) = outer s
   \<and> buffer (fst (supersampling L p s)) = buffer s
   \<and> inside (Fin 0) (Fin 0.1) (fltw (fst (supersampling L p s)))"
  using supersample_funpow_outer [where L = L and p = p and n = MAX_SUPERSAMPLING and s = s and a = "Fin 0"]
  by (simp add: supersampling_def MAX_SUPERSAMPLING_def)

lemma repeat_step_keeps:
  "envelopeStage (repeat_step p s) = envelopeStage s
   \<and> envelopeVolume (repeat_step p s) = envelopeVolume s
   \<and> envelopeTime (repeat_step p s) = envelopeTime s
   \<and> envelopeLength (repeat_step p s) = envelopeLength s
   \<and> generatingSample (repeat_step p s) = generatingSample s
   \<and> repeatLimit (repeat_step p s) = repeatLimit s
   \<and> flthp (repeat_step p s) = flthp s
   \<and> flthpd (repeat_step p s) = flthpd s
   \<and> fltdmp (repeat_step p s) = fltdmp s
   \<and> buffer (repeat_step p s) = buffer s
   \<and> repeatTime (repeat_step p s)
       = (if repeatLimit s \<noteq> 0 \<and> repeatTime s + 1 \<ge> repeatLimit s then 0 else repeatTime s + 1)"
  by (simp add: repeat_step_def Let_def)

lemma frequency_step_keeps:
  "envelopeStage (frequency_step p s) = envelopeStage s
   \<and> envelopeVolume (frequency_step p s) = envelopeVolume s
   \<and> envelopeTime (frequency_step p s) = envelopeTime s
   \<and> envelopeLength (frequency_step p s) = envelopeLength s
   \<and> repeatTime (frequency_step p s) = repeatTime s
   \<and> repeatLimit (frequency_step p s) = repeatLimit s
   \<and> flthp (frequency_step p s) = flthp s
   \<and> flthpd (frequency_step p s) = flthpd s
   \<and> fltdmp (frequency_step p s) = fltdmp s
   \<and> buffer (frequency_step p s) = buffer s"
  by (simp add: frequency_step_def Let_def)

lemma frequency_step_generating:
  "generatingSample (frequency_step p s) \<Longrightarrow> generatingSample s"
  "generatingSample s \<Longrightarrow> \<not> minFrequencyValue p > Fin 0 \<Longrightarrow> generatingSample (frequency_step p s)"
  by (simp_all add: frequency_step_def Let_def split: if_splits)

lemma period_step_keeps:
  "envelopeStage (period_step s) = envelopeStage s
   \<and> envelopeVolume (period_step s) = envelopeVolume s
   \<and> envelopeTime (period_step s) = envelopeTime s
   \<and> envelopeLength (period_step s) = envelopeLength s
   \<and> generatingSample (period_step s) = generatingSample s
   \<and> repeatTime (period_step s) = repeatTime s
   \<and> repeatLimit (period_step s) = repeatLimit s
   \<and> flthp (period_step s) = flthp s
   \<and> flthpd (period_step s) = flthpd s
   \<and> fltdmp (period_step s) = fltdmp s
   \<and> buffer (period_step s) = buffer s
   \<and> 8 \<le> period (period_step s)"
  by (simp add: period_step_def Let_def split: prod.splits)

lemma duty_step_keeps:
  "envelopeStage (duty_step s) = envelopeStage s
   \<and> envelopeVolume (duty_step s) = envelopeVolume s
   \<and> envelopeTime (duty_step s) = envelopeTime s
   \<and> envelopeLength (duty_step s) = envelopeLength s
   \<and> generatingSample (duty_step s) = generatingSample s
   \<and> repeatTime (duty_step s) = repeatTime s
   \<and> repeatLimit (duty_step s) = repeatLimit s
   \<and> period (duty_step s) = period s
   \<and> flthp (duty_step s) = flthp s
   \<and> flthpd (duty_step s) = flthpd s
   \<and> fltdmp (duty_step s) = fltdmp s
   \<and> buffer (duty_step s) = buffer s"
  by (simp add: duty_step_def Let_def)

lemma duty_step_inside: "inside (Fin 0) (Fin 0.5) (squareDuty (duty_step s))"
proof -
  have "squareDuty (duty_step s)
        = (let y = (if squareDuty s + squareSlide s < Fin 0 then Fin 0 else squareDuty s + squareSlide s)
           in if y > Fin 0.5 then Fin 0.5 else y)"
    by (simp add: duty_step_def Let_def)
  then show ?thesis using clamp_inside [of 0 "0.5" "squareDuty s + squareSlide s"] by simp
qed

lemma envelope_step_keeps:
  "envelopeLength (envelope_step p s) = envelopeLength s
   \<and> repeatTime (envelope_step p s) = repeatTime s
   \<and> repeatLimit (envelope_step p s) = repeatLimit s
   \<and> period (envelope_step p s) = period s
   \<and> squareDuty (envelope_step p s) = squareDuty s
   \<and> flthp (envelope_step p s) = flthp s
   \<and> flthpd (envelope_step p s) = flthpd s
   \<and> fltdmp (envelope_step p s) = fltdmp s
   \<and> buffer (envelope_step p s) = buffer s"
  by (simp add: envelope_step_def Let_def)

lemma envelope_step_next:
  "(envelopeStage (envelope_step p s), envelopeTime (envelope_step p s))
     = envelope_next (envelopeLength s) (envelopeStage s, envelopeTime s)"
  by (auto simp: envelope_step_def envelope_next_def Let_def)

lemma envelope_step_generating:
  "generatingSample (envelope_step p s) \<Longrightarrow> generatingSample s"
  "generatingSample s \<Longrightarrow> envelopeStage (envelope_step p s) \<noteq> 3
     \<Longrightarrow> generatingSample (envelope_step p s)"
  "envelopeStage s < 3 \<Longrightarrow> envelopeStage (envelope_step p s) = 3
     \<Longrightarrow> \<not> generatingSample (envelope_step p s)"
  by (auto simp: envelope_step_def Let_def split: if_splits)

lemma phaser_step_outer: "outer (phaser_step s) = outer s \<and> buffer (phaser_step s) = buffer s"
  by (simp add: phaser_step_def outer_def Let_def)

lemma hpf_step_keeps:
  "envelopeStage (hpf_step s) = envelopeStage s
   \<and> envelopeTime (hpf_step s) = envelopeTime s
   \<and> envelopeLength (hpf_step s) = envelopeLength s
   \<and> generatingSample (hpf_step s) = generatingSample s
   \<and> repeatTime (hpf_step s) = repeatTime s
   \<and> repeatLimit (hpf_step s) = repeatLimit s
   \<and> period (hpf_step s) = period s
   \<and> squareDuty (hpf_step s) = squareDuty s
   \<and> flthpd (hpf_step s) = flthpd s
   \<and> fltdmp (hpf_step s) = fltdmp s
   \<and> buffer (hpf_step s) = buffer s"
  by (simp add: hpf_step_def Let_def)

lemma hpf_step_inside:
  "\<not> feq (flthpd s) (Fin 0) \<Longrightarrow> inside (Fin 0.00001) (Fin 0.1) (flthp (hpf_step s))"
proof -
  assume a: "\<not> feq (flthpd s) (Fin 0)"
  have "flthp (hpf_step s)
        = (let y = (if flthp s * flthpd s < Fin 0.00001 then Fin 0.00001 else flthp s * flthpd s)
           in if y > Fin 0.1 then Fin 0.1 else y)"
    using a by (simp add: hpf_step_def Let_def)
  then show ?thesis using clamp_inside [of "0.00001" "0.1" "flthp s * flthpd s"] by simp
qed

lemma hpf_step_skipped: "feq (flthpd s) (Fin 0) \<Longrightarrow> hpf_step s = s"
  by (simp add: hpf_step_def)

section \<open>One pass of the loop body\<close>

lemma sample_step_unfold:
  "sample_step L p i s =
     (let s7 = hpf_step (phaser_step (envelope_step p (duty_step (period_step
                 (frequency_step p (repeat_step p s))))));
          r = supersampling L p s7;
          x = (snd r / of_int_f (int MAX_SUPERSAMPLING)) * SAMPLE_SCALE_COEFICIENT;
          y = (if x > Fin 1 then Fin 1 else x)
      in (fst r)\<lparr>buffer := (buffer (fst r))(i := if y < Fin (- 1) then Fin (- 1) else y)\<rparr>)"
  by (simp add: sample_step_def Let_def split: prod.splits)

lemma outer_fields:
  "outer a = outer b \<Longrightarrow>
     envelopeStage a = envelopeStage b \<and> envelopeTime a = envelopeTime b
     \<and> envelopeLength a = envelopeLength b \<and> generatingSample a = generatingSample b
     \<and> repeatTime a = repeatTime b \<and> repeatLimit a = repeatLimit b \<and> period a = period b
     \<and> squareDuty a = squareDuty b \<and> flthp a = flthp b \<and> flthpd a = flthpd b
     \<and> fltdmp a = fltdmp b \<and> envelopeVolume a = envelopeVolume b"
  by (simp add: outer_def)

lemma clamp_sample_inside:
  "inside (Fin (- 1)) (Fin 1)
     (let y = (if x > Fin 1 then Fin 1 else x) in if y < Fin (- 1) then Fin (- 1) else y)"
  by (cases x) (auto simp: inside_def cfloat_ops Let_def)

lemma sample_step_control:
  "envelopeLength (sample_step L p i s) = envelopeLength s
   \<and> repeatLimit (sample_step L p i s) = repeatLimit s
   \<and> fltdmp (sample_step L p i s) = fltdmp s
   \<and> flthpd (sample_step L p i s) = flthpd s
   \<and> (envelopeStage (sample_step L p i s), envelopeTime (sample_step L p i s))
       = envelope_next (envelopeLength s) (envelopeStage s, envelopeTime s)
   \<and> repeatTime (sample_step L p i s)
       = (if repeatLimit s \<noteq> 0 \<and> repeatTime s + 1 \<ge> repeatLimit s then 0 else repeatTime s + 1)"
proof -
  let ?s1 = "repeat_step p s"
  let ?s2 = "frequency_step p ?s1"
  let ?s3 = "period_step ?s2"
  let ?s4 = "duty_step ?s3"
  let ?s5 = "envelope_step p ?s4"
  let ?s6 = "phaser_step ?s5"
  let ?s7 = "hpf_step ?s6"
  let ?s8 = "fst (supersampling L p ?s7)"
  have o8: "outer ?s8 = outer ?s7" by (simp add: supersampling_outer)
  have o6: "outer ?s6 = outer ?s5" by (simp add: phaser_step_outer)
  have pre: "envelopeStage ?s4 = envelopeStage s \<and> envelopeTime ?s4 = envelopeTime s
             \<and> envelopeLength ?s4 = envelopeLength s"
    by (simp add: duty_step_keeps period_step_keeps frequency_step_keeps repeat_step_keeps)
  have nxt: "(envelopeStage ?s5, envelopeTime ?s5)
             = envelope_next (envelopeLength s) (envelopeStage s, envelopeTime s)"
    using envelope_step_next [of p ?s4] by (simp add: pre)
  have a: "envelopeStage ?s8 = envelopeStage ?s5 \<and> envelopeTime ?s8 = envelopeTime ?s5"
    using outer_fields [OF o8] outer_fields [OF o6] by (simp add: hpf_step_keeps)
  have b: "envelopeLength ?s8 = envelopeLength s \<and> repeatLimit ?s8 = repeatLimit s
           \<and> fltdmp ?s8 = fltdmp s \<and> flthpd ?s8 = flthpd s
           \<and> repeatTime ?s8 = repeatTime ?s1"
    using outer_fields [OF o8] outer_fields [OF o6]
    by (simp add: hpf_step_keeps envelope_step_keeps duty_step_keeps period_step_keeps
        frequency_step_keeps repeat_step_keeps)
  show ?thesis
    using a b nxt by (simp add: sample_step_unfold Let_def repeat_step_keeps)
qed

lemma sample_step_generating:
  "generatingSample (sample_step L p i s) \<Longrightarrow> generatingSample s"
  "generatingSample s \<Longrightarrow> \<not> minFrequencyValue p > Fin 0
     \<Longrightarrow> envelopeStage (sample_step L p i s) \<noteq> 3 \<Longrightarrow> generatingSample (sample_step L p i s)"
  "envelopeStage s < 3 \<Longrightarrow> envelopeStage (sample_step L p i s) = 3
     \<Longrightarrow> \<not> generatingSample (sample_step L p i s)"
proof -
  let ?s1 = "repeat_step p s"
  let ?s2 = "frequency_step p ?s1"
  let ?s3 = "period_step ?s2"
  let ?s4 = "duty_step ?s3"
  let ?s5 = "envelope_step p ?s4"
  let ?s6 = "phaser_step ?s5"
  let ?s7 = "hpf_step ?s6"
  let ?s8 = "fst (supersampling L p ?s7)"
  have o8: "outer ?s8 = outer ?s7" by (simp add: supersampling_outer)
  have o6: "outer ?s6 = outer ?s5" by (simp add: phaser_step_outer)
  have g: "generatingSample (sample_step L p i s) = generatingSample ?s5
           \<and> envelopeStage (sample_step L p i s) = envelopeStage ?s5"
    using outer_fields [OF o8] outer_fields [OF o6]
    by (simp add: sample_step_unfold Let_def hpf_step_keeps)
  have g4: "generatingSample ?s4 = generatingSample ?s2"
    by (simp add: duty_step_keeps period_step_keeps)
  have g1: "generatingSample ?s1 = generatingSample s"
    by (simp add: repeat_step_keeps)
  {
    assume "generatingSample (sample_step L p i s)"
    then have "generatingSample ?s4" using g envelope_step_generating(1) [of p ?s4] by simp
    then show "generatingSample s"
      using g4 g1 frequency_step_generating(1) [of p ?s1] by simp
  }
  {
    assume a: "generatingSample s" "\<not> minFrequencyValue p > Fin 0"
      "envelopeStage (sample_step L p i s) \<noteq> 3"
    have "generatingSample ?s4"
      using a g4 g1 frequency_step_generating(2) [of ?s1 p] by simp
    then show "generatingSample (sample_step L p i s)"
      using a g envelope_step_generating(2) [of ?s4 p] by simp
  }
  {
    assume a: "envelopeStage s < 3" "envelopeStage (sample_step L p i s) = 3"
    have "envelopeStage ?s4 = envelopeStage s"
      by (simp add: duty_step_keeps period_step_keeps frequency_step_keeps repeat_step_keeps)
    then show "\<not> generatingSample (sample_step L p i s)"
      using a g envelope_step_generating(3) [of ?s4 p] by simp
  }
qed

lemma sample_step_clamped:
  "8 \<le> period (sample_step L p i s)
   \<and> inside (Fin 0) (Fin 0.5) (squareDuty (sample_step L p i s))
   \<and> inside (Fin 0) (Fin 0.1) (fltw (sample_step L p i s))
   \<and> inside (Fin (- 1)) (Fin 1) (buffer (sample_step L p i s) i)
   \<and> (\<forall>j. j \<noteq> i \<longrightarrow> buffer (sample_step L p i s) j = buffer s j)
   \<and> (if feq (flthpd s) (Fin 0) then flthp (sample_step L p i s) = flthp s
       else inside (Fin 0.00001) (Fin 0.1) (flthp (sample_step L p i s)))"
proof -
  let ?s1 = "repeat_step p s"
  let ?s2 = "frequency_step p ?s1"
  let ?s3 = "period_step ?s2"
  let ?s4 = "duty_step ?s3"
  let ?s5 = "envelope_step p ?s4"
  let ?s6 = "phaser_step ?s5"
  let ?s7 = "hpf_step ?s6"
  let ?s8 = "fst (supersampling L p ?s7)"
  have o8: "outer ?s8 = outer ?s7" by (simp add: supersampling_outer)
  have o6: "outer ?s6 = outer ?s5" by (simp add: phaser_step_outer)
  have per: "period ?s8 = period ?s3"
    using outer_fields [OF o8] outer_fields [OF o6]
    by (simp add: hpf_step_keeps envelope_step_keeps duty_step_keeps)
  have duty: "squareDuty ?s8 = squareDuty ?s4"
    using outer_fields [OF o8] outer_fields [OF o6]
    by (simp add: hpf_step_keeps envelope_step_keeps)
  have hp: "flthp ?s8 = flthp ?s7" using outer_fields [OF o8] by simp
  have hp6: "flthp ?s6 = flthp s \<and> flthpd ?s6 = flthpd s"
    using outer_fields [OF o6]
    by (simp add: envelope_step_keeps duty_step_keeps period_step_keeps
        frequency_step_keeps repeat_step_keeps)
  have buf: "buffer ?s8 = buffer s"
    by (simp add: supersampling_outer hpf_step_keeps phaser_step_outer envelope_step_keeps
        duty_step_keeps period_step_keeps frequency_step_keeps repeat_step_keeps)
  have hpc: "if feq (flthpd s) (Fin 0) then flthp ?s7 = flthp s
             else inside (Fin 0.00001) (Fin 0.1) (flthp ?s7)"
    using hpf_step_inside [of ?s6] hpf_step_skipped [of ?s6] hp6 by (simp split: if_splits)
  have fields: "period (sample_step L p i s) = period ?s8
     \<and> squareDuty (sample_step L p i s) = squareDuty ?s8
     \<and> fltw (sample_step L p i s) = fltw ?s8
     \<and> flthp (sample_step L p i s) = flthp ?s8"
    by (simp add: sample_step_unfold Let_def)
  have b: "buffer (sample_step L p i s) =
             (buffer s)(i := (let x = (snd (supersampling L p ?s7) / of_int_f (int MAX_SUPERSAMPLING))
                                       * SAMPLE_SCALE_COEFICIENT;
                                  y = (if x > Fin 1 then Fin 1 else x)
                              in if y < Fin (- 1) then Fin (- 1) else y))"
    by (simp add: sample_step_unfold Let_def buf)
  have bi: "inside (Fin (- 1)) (Fin 1) (buffer (sample_step L p i s) i)"
    unfolding b
    using clamp_sample_inside
      [of "(snd (supersampling L p ?s7) / of_int_f (int MAX_SUPERSAMPLING)) * SAMPLE_SCALE_COEFICIENT"]
    by (simp add: Let_def)
  have bj: "\<forall>j. j \<noteq> i \<longrightarrow> buffer (sample_step L p i s) j = buffer s j"
    unfolding b by simp
  show ?thesis
    using period_step_keeps [of ?s2] duty_step_inside [of ?s3] supersampling_outer [of L p ?s7]
      hpc bi bj
    by (auto simp: fields per duty hp)
qed

section \<open>The loop\<close>

declare gen_loop.simps [simp del]

lemma MAX_samples: "MAX_WAVE_LENGTH_SECONDS * WAVE_SAMPLE_RATE = 441000"
  by (simp add: MAX_WAVE_LENGTH_SECONDS_def WAVE_SAMPLE_RATE_def)

lemma gen_loop_done:
  "\<not> i < MAX_WAVE_LENGTH_SECONDS * WAVE_SAMPLE_RATE \<Longrightarrow> gen_loop L p i c s = (i, c, s)"
  by (subst gen_loop.simps) simp


lemma gen_loop_continue:
  "i < MAX_WAVE_LENGTH_SECONDS * WAVE_SAMPLE_RATE \<Longrightarrow> generatingSample s
   \<Longrightarrow> gen_loop L p i c s = gen_loop L p (i + 1) c (sample_step L p i s)"
  by (subst gen_loop.simps) simp




lemma gen_loop_runs_to_cap:
  "\<not> minFrequencyValue p > Fin 0 \<Longrightarrow> generatingSample s \<Longrightarrow> envelopeStage s = 1
   \<Longrightarrow> i \<le> MAX_WAVE_LENGTH_SECONDS * WAVE_SAMPLE_RATE
   \<Longrightarrow> envelopeTime s + int (MAX_WAVE_LENGTH_SECONDS * WAVE_SAMPLE_RATE - i) \<le> envelopeLength s ! 1
   \<Longrightarrow> fst (gen_loop L p i c s) = MAX_WAVE_LENGTH_SECONDS * WAVE_SAMPLE_RATE
       \<and> fst (snd (gen_loop L p i c s)) = c"
proof (induction L p i c s rule: gen_loop.induct)
  case (1 L p i c s)
  show ?case
  proof (cases "i < MAX_WAVE_LENGTH_SECONDS * WAVE_SAMPLE_RATE")
    case False
    have "gen_loop L p i c s = (i, c, s)" using False by (rule gen_loop_done)
    then show ?thesis using "1.prems" False by auto
  next
    case True
    let ?s = "sample_step L p i s"
    have nx: "(envelopeStage ?s, envelopeTime ?s) = (1, envelopeTime s + 1)"
      using sample_step_control [of L p i s] True "1.prems"
      by (simp add: envelope_next_def MAX_samples)
    have len: "envelopeLength ?s = envelopeLength s"
      using sample_step_control [of L p i s] by simp
    have g: "generatingSample ?s"
      using sample_step_generating(2) [of s p L i] "1.prems" nx by simp
    have "fst (gen_loop L p (i + 1) c ?s) = MAX_WAVE_LENGTH_SECONDS * WAVE_SAMPLE_RATE
          \<and> fst (snd (gen_loop L p (i + 1) c ?s)) = c"
      using "1.IH" [OF True] "1.prems" True g nx len by (simp add: MAX_samples)
    then show ?thesis using gen_loop_continue [of i s L p c] True "1.prems"(2) by simp
  qed
qed

section \<open>The state before the loop\<close>

lemma reset_noise_and_repeat_keeps:
  "envelopeStage (reset_noise_and_repeat L p s) = envelopeStage s
   \<and> envelopeTime (reset_noise_and_repeat L p s) = envelopeTime s
   \<and> envelopeLength (reset_noise_and_repeat L p s) = envelopeLength s
   \<and> generatingSample (reset_noise_and_repeat L p s) = generatingSample s
   \<and> repeatTime (reset_noise_and_repeat L p s) = repeatTime s
   \<and> fltdmp (reset_noise_and_repeat L p s) = fltdmp s
   \<and> buffer (reset_noise_and_repeat L p s) = buffer s
   \<and> fperiod (reset_noise_and_repeat L p s) = fperiod s
   \<and> period (reset_noise_and_repeat L p s) = period s
   \<and> fmaxperiod (reset_noise_and_repeat L p s) = fmaxperiod s
   \<and> fslide (reset_noise_and_repeat L p s) = fslide s
   \<and> fdslide (reset_noise_and_repeat L p s) = fdslide s
   \<and> squareDuty (reset_noise_and_repeat L p s) = squareDuty s
   \<and> squareSlide (reset_noise_and_repeat L p s) = squareSlide s
   \<and> arpeggioModulation (reset_noise_and_repeat L p s) = arpeggioModulation s
   \<and> arpeggioTime (reset_noise_and_repeat L p s) = arpeggioTime s
   \<and> arpeggioLimit (reset_noise_and_repeat L p s) = arpeggioLimit s
   \<and> repeatLimit (reset_noise_and_repeat L p s)
       = (if feq (repeatSpeedValue p) (Fin 0) then 0
          else to_int (powf (Fin 1 - repeatSpeedValue p) 2 * Fin 20000 + Fin 32))"
  by (simp add: reset_noise_and_repeat_def Let_def split: prod.splits)

lemma reset_phaser_keeps:
  "envelopeStage (reset_phaser p s) = envelopeStage s
   \<and> envelopeTime (reset_phaser p s) = envelopeTime s
   \<and> envelopeLength (reset_phaser p s) = envelopeLength s
   \<and> generatingSample (reset_phaser p s) = generatingSample s
   \<and> repeatTime (reset_phaser p s) = repeatTime s
   \<and> fltdmp (reset_phaser p s) = fltdmp s
   \<and> buffer (reset_phaser p s) = buffer s
   \<and> fperiod (reset_phaser p s) = fperiod s
   \<and> period (reset_phaser p s) = period s
   \<and> fmaxperiod (reset_phaser p s) = fmaxperiod s
   \<and> fslide (reset_phaser p s) = fslide s
   \<and> fdslide (reset_phaser p s) = fdslide s
   \<and> squareDuty (reset_phaser p s) = squareDuty s
   \<and> squareSlide (reset_phaser p s) = squareSlide s
   \<and> arpeggioModulation (reset_phaser p s) = arpeggioModulation s
   \<and> arpeggioTime (reset_phaser p s) = arpeggioTime s
   \<and> arpeggioLimit (reset_phaser p s) = arpeggioLimit s"
  by (simp add: reset_phaser_def Let_def)

lemma reset_envelope_keeps:
  "envelopeStage (reset_envelope p s) = envelopeStage s
   \<and> envelopeTime (reset_envelope p s) = envelopeTime s
   \<and> generatingSample (reset_envelope p s) = generatingSample s
   \<and> repeatTime (reset_envelope p s) = repeatTime s
   \<and> fltdmp (reset_envelope p s) = fltdmp s
   \<and> buffer (reset_envelope p s) = buffer s
   \<and> fperiod (reset_envelope p s) = fperiod s
   \<and> period (reset_envelope p s) = period s
   \<and> fmaxperiod (reset_envelope p s) = fmaxperiod s
   \<and> fslide (reset_envelope p s) = fslide s
   \<and> fdslide (reset_envelope p s) = fdslide s
   \<and> squareDuty (reset_envelope p s) = squareDuty s
   \<and> squareSlide (reset_envelope p s) = squareSlide s
   \<and> arpeggioModulation (reset_envelope p s) = arpeggioModulation s
   \<and> arpeggioTime (reset_envelope p s) = arpeggioTime s
   \<and> arpeggioLimit (reset_envelope p s) = arpeggioLimit s
   \<and> envelopeLength (reset_envelope p s)
       = (envelopeLength s)
           [0 := to_int (attackTimeValue p * attackTimeValue p * Fin 100000),
            1 := to_int (sustainTimeValue p * sustainTimeValue p * Fin 100000),
            2 := to_int (decayTimeValue p * decayTimeValue p * Fin 100000)]"
  by (simp add: reset_envelope_def Let_def)

lemma reset_vibrato_keeps:
  "envelopeStage (reset_vibrato p s) = envelopeStage s
   \<and> envelopeTime (reset_vibrato p s) = envelopeTime s
   \<and> envelopeLength (reset_vibrato p s) = envelopeLength s
   \<and> generatingSample (reset_vibrato p s) = generatingSample s
   \<and> repeatTime (reset_vibrato p s) = repeatTime s
   \<and> fltdmp (reset_vibrato p s) = fltdmp s
   \<and> buffer (reset_vibrato p s) = buffer s
   \<and> fperiod (reset_vibrato p s) = fperiod s
   \<and> period (reset_vibrato p s) = period s
   \<and> fmaxperiod (reset_vibrato p s) = fmaxperiod s
   \<and> fslide (reset_vibrato p s) = fslide s
   \<and> fdslide (reset_vibrato p s) = fdslide s
   \<and> squareDuty (reset_vibrato p s) = squareDuty s
   \<and> squareSlide (reset_vibrato p s) = squareSlide s
   \<and> arpeggioModulation (reset_vibrato p s) = arpeggioModulation s
   \<and> arpeggioTime (reset_vibrato p s) = arpeggioTime s
   \<and> arpeggioLimit (reset_vibrato p s) = arpeggioLimit s"
  by (simp add: reset_vibrato_def Let_def)

lemma reset_filter_parameters_keeps:
  "envelopeStage (reset_filter_parameters p s) = envelopeStage s
   \<and> envelopeTime (reset_filter_parameters p s) = envelopeTime s
   \<and> envelopeLength (reset_filter_parameters p s) = envelopeLength s
   \<and> generatingSample (reset_filter_parameters p s) = generatingSample s
   \<and> repeatTime (reset_filter_parameters p s) = repeatTime s
   \<and> buffer (reset_filter_parameters p s) = buffer s
   \<and> fperiod (reset_filter_parameters p s) = fperiod s
   \<and> period (reset_filter_parameters p s) = period s
   \<and> fmaxperiod (reset_filter_parameters p s) = fmaxperiod s
   \<and> fslide (reset_filter_parameters p s) = fslide s
   \<and> fdslide (reset_filter_parameters p s) = fdslide s
   \<and> squareDuty (reset_filter_parameters p s) = squareDuty s
   \<and> squareSlide (reset_filter_parameters p s) = squareSlide s
   \<and> arpeggioModulation (reset_filter_parameters p s) = arpeggioModulation s
   \<and> arpeggioTime (reset_filter_parameters p s) = arpeggioTime s
   \<and> arpeggioLimit (reset_filter_parameters p s) = arpeggioLimit s"
  by (simp add: reset_filter_parameters_def Let_def)

lemma reset_filter_parameters_fltdmp:
  "fltdmp (reset_filter_parameters p s) = NaN \<or> fltdmp (reset_filter_parameters p s) \<le> Fin 0.8"
proof -
  define d where "d = Fin 5 / (Fin 1 + powf (lpfResonanceValue p) 2 * Fin 20)
                      * (Fin 0.01 + powf (lpfCutoffValue p) 3 * Fin 0.1)"
  have "fltdmp (reset_filter_parameters p s) = (if d > Fin 0.8 then Fin 0.8 else d)"
    by (simp add: reset_filter_parameters_def Let_def d_def)
  then show ?thesis by (cases d) (auto simp: cfloat_ops)
qed

lemma reset_sample_parameters_keeps:
  "envelopeStage (reset_sample_parameters p s) = envelopeStage s
   \<and> envelopeTime (reset_sample_parameters p s) = envelopeTime s
   \<and> envelopeLength (reset_sample_parameters p s) = envelopeLength s
   \<and> generatingSample (reset_sample_parameters p s) = generatingSample s
   \<and> repeatTime (reset_sample_parameters p s) = repeatTime s
   \<and> arpeggioTime (reset_sample_parameters p s) = arpeggioTime s
   \<and> buffer (reset_sample_parameters p s) = buffer s"
  by (simp add: reset_sample_parameters_def Let_def)

lemma initial_control:
  "envelopeStage (initial L p g) = 0 \<and> envelopeTime (initial L p g) = 0
   \<and> generatingSample (initial L p g) \<and> repeatTime (initial L p g) = 0
   \<and> arpeggioTime (initial L p g) = 0
   \<and> buffer (initial L p g) = (\<lambda>_. Fin 0)
   \<and> envelopeLength (initial L p g)
       = [to_int (attackTimeValue p * attackTimeValue p * Fin 100000),
          to_int (sustainTimeValue p * sustainTimeValue p * Fin 100000),
          to_int (decayTimeValue p * decayTimeValue p * Fin 100000)]
   \<and> repeatLimit (initial L p g)
       = (if feq (repeatSpeedValue p) (Fin 0) then 0
          else to_int (powf (Fin 1 - repeatSpeedValue p) 2 * Fin 20000 + Fin 32))
   \<and> (fltdmp (initial L p g) = NaN \<or> fltdmp (initial L p g) \<le> Fin 0.8)"
  using reset_filter_parameters_fltdmp [of p "reset_sample_parameters p (declared g)"]
  by (simp add: initial_def Let_def reset_noise_and_repeat_keeps reset_phaser_keeps
      reset_envelope_keeps reset_vibrato_keeps reset_filter_parameters_keeps
      reset_sample_parameters_keeps)
     (simp add: declared_def)

lemma initial_sample_parameters:
  "fperiod (initial L p g) = fperiod (reset_sample_parameters p (declared g))
   \<and> period (initial L p g) = period (reset_sample_parameters p (declared g))
   \<and> fmaxperiod (initial L p g) = fmaxperiod (reset_sample_parameters p (declared g))
   \<and> fslide (initial L p g) = fslide (reset_sample_parameters p (declared g))
   \<and> fdslide (initial L p g) = fdslide (reset_sample_parameters p (declared g))
   \<and> squareDuty (initial L p g) = squareDuty (reset_sample_parameters p (declared g))
   \<and> squareSlide (initial L p g) = squareSlide (reset_sample_parameters p (declared g))
   \<and> arpeggioModulation (initial L p g)
       = arpeggioModulation (reset_sample_parameters p (declared g))
   \<and> arpeggioLimit (initial L p g) = arpeggioLimit (reset_sample_parameters p (declared g))"
  by (simp add: initial_def Let_def reset_noise_and_repeat_keeps reset_phaser_keeps
      reset_envelope_keeps reset_vibrato_keeps reset_filter_parameters_keeps)

section \<open>GenerateWave\<close>

lemma security_check_zero: "security_check zero_params = zero_params"
  by (simp add: security_check_def zero_params_def cfloat_ops)

lemma security_check_long_sustain: "security_check long_sustain = long_sustain"
  by (simp add: security_check_def long_sustain_def zero_params_def cfloat_ops)

lemma render_sampleCount:
  "sampleCount (fst (render L p g)) = fst (snd (gen_loop L (security_check p) 0 0
      (initial L (security_check p) g)))
   \<and> data (fst (render L p g))
       = map (buffer (snd (snd (gen_loop L (security_check p) 0 0 (initial L (security_check p) g)))))
           [0..<nat (sampleCount (fst (render L p g)))]"
  by (simp add: render_def Let_def split: prod.splits)

text \<open>
  C1. The failing input: the zeroed record with a sustain of 3.0. The sustain stage is
  900000 samples long and the minimum frequency is 0, so nothing stops the loop before
  its bound: it writes all 441000 samples of the buffer. \<^verbatim>\<open>sampleCount\<close> is assigned only
  at the \<^verbatim>\<open>break\<close>, so it keeps its initial 0 and the wave returned is empty.
\<close>

theorem GenerateWave_empty_at_time_cap:
  "fst (gen_loop sample_libc (security_check long_sustain) 0 0
          (initial sample_libc (security_check long_sustain) 0))
     = MAX_WAVE_LENGTH_SECONDS * WAVE_SAMPLE_RATE
   \<and> sampleCount (fst (GenerateWave sample_libc long_sustain (sample_globals 0))) = 0
   \<and> data (fst (GenerateWave sample_libc long_sustain (sample_globals 0))) = []"
proof -
  let ?p = long_sustain
  let ?s0 = "initial sample_libc ?p 0"
  let ?s1 = "sample_step sample_libc ?p 0 ?s0"
  have minf: "\<not> minFrequencyValue ?p > Fin 0"
    by (simp add: long_sustain_def zero_params_def cfloat_ops)
  have len: "envelopeLength ?s0 = [0, 900000, 0]"
    using initial_control [of sample_libc ?p 0]
    by (simp add: long_sustain_def zero_params_def cfloat_ops trunc_def)
  have c0: "envelopeStage ?s0 = 0 \<and> envelopeTime ?s0 = 0 \<and> generatingSample ?s0"
    using initial_control [of sample_libc ?p 0] by simp
  have nx: "envelopeStage ?s1 = 1 \<and> envelopeTime ?s1 = 0 \<and> envelopeLength ?s1 = [0, 900000, 0]"
    using sample_step_control [of sample_libc ?p 0 ?s0] c0 len
    by (simp add: envelope_next_def)
  have g1: "generatingSample ?s1"
    using sample_step_generating(2) [of ?s0 ?p sample_libc 0] c0 minf nx by simp
  have first: "gen_loop sample_libc ?p 0 0 ?s0 = gen_loop sample_libc ?p (0 + 1) 0 ?s1"
    using c0 by (intro gen_loop_continue) (simp_all add: MAX_samples)
  have run: "fst (gen_loop sample_libc ?p 1 0 ?s1) = MAX_WAVE_LENGTH_SECONDS * WAVE_SAMPLE_RATE
             \<and> fst (snd (gen_loop sample_libc ?p 1 0 ?s1)) = 0"
    using minf g1 nx by (intro gen_loop_runs_to_cap) (simp_all add: MAX_samples)
  have loop: "fst (gen_loop sample_libc ?p 0 0 ?s0) = MAX_WAVE_LENGTH_SECONDS * WAVE_SAMPLE_RATE
              \<and> fst (snd (gen_loop sample_libc ?p 0 0 ?s0)) = 0"
    using first run by simp
  have seed: "randSeed ?p = 0" by (simp add: long_sustain_def zero_params_def)
  have w: "fst (GenerateWave sample_libc ?p (sample_globals 0)) = fst (render sample_libc ?p 0)"
    by (simp add: GenerateWave_def seed sample_globals_def Let_def split: prod.splits)
  show ?thesis
    using loop render_sampleCount [of sample_libc ?p 0]
    by (simp add: w security_check_long_sustain)
qed

text \<open>
  C4. With a seed that is not 0, \<^verbatim>\<open>GenerateWave\<close> seeds the generator of the C library
  before anything draws from it, so the wave it returns does not depend on the globals
  it is called in: two calls with the same parameters return the same wave, from any
  two states of the generator, and also one call right after the other.
\<close>

theorem GenerateWave_deterministic:
  "randSeed p \<noteq> 0 \<Longrightarrow>
     fst (GenerateWave L p G) = fst (GenerateWave L p G')
     \<and> fst (GenerateWave L p (snd (GenerateWave L p G))) = fst (GenerateWave L p G)"
  by (simp add: GenerateWave_def Let_def split: prod.splits)

theorem GenerateWave_deterministic_witness:
  "randSeed seeded \<noteq> 0
   \<and> fst (GenerateWave sample_libc seeded (sample_globals 1))
       = fst (GenerateWave sample_libc seeded (sample_globals 2))"
proof -
  have s: "randSeed seeded \<noteq> 0" by (simp add: seeded_def)
  show ?thesis
    using s GenerateWave_deterministic [OF s, of sample_libc "sample_globals 1" "sample_globals 2"]
    by simp
qed

section \<open>The clamps along the loop\<close>

lemma reached_invariant:
  "reached L p g i s \<Longrightarrow>
     fltdmp s = fltdmp (initial L p g) \<and> flthpd s = flthpd (initial L p g)
     \<and> envelopeLength s = envelopeLength (initial L p g)
     \<and> repeatLimit s = repeatLimit (initial L p g)
     \<and> (\<forall>j<i. inside (Fin (- 1)) (Fin 1) (buffer s j))
     \<and> (0 < i \<longrightarrow> 8 \<le> period s \<and> inside (Fin 0) (Fin 0.5) (squareDuty s)
                  \<and> inside (Fin 0) (Fin 0.1) (fltw s)
                  \<and> (\<not> feq (flthpd s) (Fin 0) \<longrightarrow> inside (Fin 0.00001) (Fin 0.1) (flthp s)))"
proof (induction rule: reached.induct)
  case reached_initial
  show ?case by simp
next
  case (reached_step i s)
  let ?s = "sample_step L p i s"
  have c: "envelopeLength ?s = envelopeLength s \<and> repeatLimit ?s = repeatLimit s
           \<and> fltdmp ?s = fltdmp s \<and> flthpd ?s = flthpd s"
    using sample_step_control [of L p i s] by simp
  have k: "8 \<le> period ?s \<and> inside (Fin 0) (Fin 0.5) (squareDuty ?s)
           \<and> inside (Fin 0) (Fin 0.1) (fltw ?s)
           \<and> inside (Fin (- 1)) (Fin 1) (buffer ?s i)
           \<and> (\<forall>j. j \<noteq> i \<longrightarrow> buffer ?s j = buffer s j)
           \<and> (if feq (flthpd s) (Fin 0) then flthp ?s = flthp s
               else inside (Fin 0.00001) (Fin 0.1) (flthp ?s))"
    by (rule sample_step_clamped)
  have buf: "\<forall>j<Suc i. inside (Fin (- 1)) (Fin 1) (buffer ?s j)"
  proof (intro allI impI)
    fix j assume "j < Suc i"
    then have "j = i \<or> j < i" by auto
    then show "inside (Fin (- 1)) (Fin 1) (buffer ?s j)"
      using k reached_step.IH by auto
  qed
  have hp: "\<not> feq (flthpd ?s) (Fin 0) \<longrightarrow> inside (Fin 0.00001) (Fin 0.1) (flthp ?s)"
    using k c by (auto split: if_splits)
  show ?case using c k buf hp reached_step.IH by simp
qed

lemma fadd_NaN [simp]: "fadd a NaN = NaN"
  by (cases a) simp_all

lemma fmul_NaN [simp]: "fmul a NaN = NaN"
  by (cases a) simp_all









section \<open>The guards on the copy of the parameters\<close>

lemma security_check_fields:
  "security_check p =
     p\<lparr>minFrequencyValue := minFrequencyValue (security_check p),
       slideValue := slideValue (security_check p)\<rparr>
   \<and> startFrequencyValue (security_check p) = startFrequencyValue p
   \<and> deltaSlideValue (security_check p) = deltaSlideValue p
   \<and> randSeed (security_check p) = randSeed p"
  by (simp add: security_check_def Let_def)

lemma security_check_guarded:
  "\<not> minFrequencyValue (security_check p) > startFrequencyValue (security_check p)
   \<and> \<not> slideValue (security_check p) < deltaSlideValue (security_check p)"
  by (cases "minFrequencyValue p"; cases "startFrequencyValue p";
      cases "slideValue p"; cases "deltaSlideValue p")
     (simp_all add: security_check_def Let_def cfloat_ops)

lemma security_check_ordered:
  "(minFrequencyValue p \<noteq> NaN \<and> startFrequencyValue p \<noteq> NaN
      \<longrightarrow> minFrequencyValue (security_check p) \<le> startFrequencyValue (security_check p))
   \<and> (slideValue p \<noteq> NaN \<and> deltaSlideValue p \<noteq> NaN
      \<longrightarrow> slideValue (security_check p) \<ge> deltaSlideValue (security_check p))"
proof -
  have a: "minFrequencyValue p \<noteq> NaN \<and> startFrequencyValue p \<noteq> NaN
      \<longrightarrow> minFrequencyValue (security_check p) \<le> startFrequencyValue (security_check p)"
    by (cases "minFrequencyValue p"; cases "startFrequencyValue p")
       (auto simp: security_check_def Let_def cfloat_ops)
  have b: "slideValue p \<noteq> NaN \<and> deltaSlideValue p \<noteq> NaN
      \<longrightarrow> slideValue (security_check p) \<ge> deltaSlideValue (security_check p)"
    by (cases "slideValue p"; cases "deltaSlideValue p")
       (auto simp: security_check_def Let_def cfloat_ops)
  show ?thesis using a b by simp
qed

lemma security_check_idem: "security_check (security_check p) = security_check p"
proof -
  have "security_check q = q"
    if "\<not> minFrequencyValue q > startFrequencyValue q" "\<not> slideValue q < deltaSlideValue q" for q
    using that by (simp add: security_check_def Let_def)
  then show ?thesis using security_check_guarded [of p] by simp
qed

text \<open>
  C6, as amended. The two guards change nothing but the minimum frequency and the slide
  of the function's own copy; after them the minimum frequency is not above the start
  frequency and the slide is not below the delta slide, which is the order the claim
  states whenever the fields compared are numbers; the wave is rendered from the
  guarded copy; and the call leaves the globals \<^verbatim>\<open>params\<close> and \<^verbatim>\<open>regenerate\<close> as they
  were, also when it is called on \<^verbatim>\<open>params\<close> itself.
\<close>

theorem GenerateWave_guards_its_copy:
  "security_check p =
     p\<lparr>minFrequencyValue := minFrequencyValue (security_check p),
       slideValue := slideValue (security_check p)\<rparr>
   \<and> \<not> minFrequencyValue (security_check p) > startFrequencyValue (security_check p)
   \<and> \<not> slideValue (security_check p) < deltaSlideValue (security_check p)
   \<and> (minFrequencyValue p \<noteq> NaN \<and> startFrequencyValue p \<noteq> NaN
      \<longrightarrow> minFrequencyValue (security_check p) \<le> startFrequencyValue (security_check p))
   \<and> (slideValue p \<noteq> NaN \<and> deltaSlideValue p \<noteq> NaN
      \<longrightarrow> slideValue (security_check p) \<ge> deltaSlideValue (security_check p))
   \<and> fst (GenerateWave L p G) = fst (GenerateWave L (security_check p) G)
   \<and> params (snd (GenerateWave L p G)) = params G
   \<and> regenerate (snd (GenerateWave L p G)) = regenerate G
   \<and> params (snd (GenerateWave L (params G) G)) = params G"
proof -
  have r: "render L (security_check p) g = render L p g" for g
    by (simp add: render_def security_check_idem)
  have w: "fst (GenerateWave L p G) = fst (GenerateWave L (security_check p) G)"
    using security_check_fields [of p] by (simp add: GenerateWave_def r)
  have f: "params (snd (GenerateWave L q G)) = params G
           \<and> regenerate (snd (GenerateWave L q G)) = regenerate G" for q
    by (simp add: GenerateWave_def Let_def split: prod.splits)
  show ?thesis
    using security_check_fields [of p] security_check_guarded [of p]
      security_check_ordered [of p] w f [of p] f [of "params G"]
    by simp
qed

theorem GenerateWave_guards_its_copy_witness:
  "minFrequencyValue swapped_frequencies \<noteq> NaN \<and> startFrequencyValue swapped_frequencies \<noteq> NaN
   \<and> slideValue swapped_frequencies \<noteq> NaN \<and> deltaSlideValue swapped_frequencies \<noteq> NaN
   \<and> minFrequencyValue (security_check swapped_frequencies)
       \<le> startFrequencyValue (security_check swapped_frequencies)
   \<and> slideValue (security_check swapped_frequencies)
       \<ge> deltaSlideValue (security_check swapped_frequencies)
   \<and> minFrequencyValue (security_check swapped_frequencies) = Fin 0.2"
  using GenerateWave_guards_its_copy [of swapped_frequencies sample_libc "sample_globals 0"]
  by (simp add: swapped_frequencies_def zero_params_def security_check_def cfloat_ops)

text \<open>
  C6, as stated, fails when a field compared is a NaN: the guard's comparison is false,
  the copy keeps the NaN, and no order holds between a NaN and a number.
\<close>

theorem security_check_keeps_NaN:
  "minFrequencyValue (security_check nan_frequency) = NaN
   \<and> \<not> minFrequencyValue (security_check nan_frequency)
         \<le> startFrequencyValue (security_check nan_frequency)"
  by (simp add: nan_frequency_def zero_params_def security_check_def cfloat_ops)

section \<open>The repeat block\<close>

lemma repeat_step_idle:
  "\<not> (repeatLimit s \<noteq> 0 \<and> repeatTime s + 1 \<ge> repeatLimit s)
   \<Longrightarrow> repeat_step p s = s\<lparr>repeatTime := repeatTime s + 1\<rparr>"
  unfolding repeat_step_def by (simp add: Let_def del: de_Morgan_conj)

lemma reset_sample_parameters_values:
  "fperiod (reset_sample_parameters p x)
     = Fin 100 / (startFrequencyValue p * startFrequencyValue p + Fin 0.001)
   \<and> period (reset_sample_parameters p x)
     = to_int (Fin 100 / (startFrequencyValue p * startFrequencyValue p + Fin 0.001))
   \<and> fmaxperiod (reset_sample_parameters p x)
     = Fin 100 / (minFrequencyValue p * minFrequencyValue p + Fin 0.001)
   \<and> fslide (reset_sample_parameters p x) = Fin 1 - powf (slideValue p) 3 * Fin 0.01
   \<and> fdslide (reset_sample_parameters p x) = (- powf (deltaSlideValue p) 3) * Fin 0.000001
   \<and> squareDuty (reset_sample_parameters p x) = Fin 0.5 - squareDutyValue p * Fin 0.5
   \<and> squareSlide (reset_sample_parameters p x) = (- dutySweepValue p) * Fin 0.00005
   \<and> arpeggioModulation (reset_sample_parameters p x)
     = (if changeAmountValue p \<ge> Fin 0 then Fin 1 - powf (changeAmountValue p) 2 * Fin 0.9
        else Fin 1 + powf (changeAmountValue p) 2 * Fin 10)
   \<and> arpeggioLimit (reset_sample_parameters p x)
     = (if feq (changeSpeedValue p) (Fin 1) then 0
        else to_int (powf (Fin 1 - changeSpeedValue p) 2 * Fin 20000 + Fin 32))"
  by (simp add: reset_sample_parameters_def Let_def)

lemma repeat_step_fires:
  "repeatLimit s \<noteq> 0 \<and> repeatTime s + 1 \<ge> repeatLimit s
   \<Longrightarrow> repeat_step p s =
         s\<lparr>repeatTime := 0,
           fperiod := fperiod (initial L p g), period := period (initial L p g),
           fmaxperiod := fmaxperiod (initial L p g), fslide := fslide (initial L p g),
           fdslide := fdslide (initial L p g), squareDuty := squareDuty (initial L p g),
           squareSlide := squareSlide (initial L p g),
           arpeggioModulation := arpeggioModulation (initial L p g),
           arpeggioTime := arpeggioTime (initial L p g),
           arpeggioLimit := arpeggioLimit (initial L p g)\<rparr>"
  using initial_sample_parameters [of L p g] initial_control [of L p g]
    reset_sample_parameters_values [of p "declared g"]
  by (simp add: repeat_step_def Let_def)

lemma reached_repeatTime:
  "reached L p g i s \<Longrightarrow> 0 < repeatLimit (initial L p g)
   \<Longrightarrow> repeatTime s = int i mod repeatLimit (initial L p g)"
proof (induction rule: reached.induct)
  case reached_initial
  show ?case using initial_control [of L p g] by simp
next
  case (reached_step i s)
  let ?N = "repeatLimit (initial L p g)"
  have lim: "repeatLimit s = ?N" using reached_invariant [OF reached_step.hyps(1)] by simp
  have t: "repeatTime s = int i mod ?N" using reached_step by simp
  have rt: "repeatTime (sample_step L p i s)
            = (if repeatLimit s \<noteq> 0 \<and> repeatTime s + 1 \<ge> repeatLimit s then 0
               else repeatTime s + 1)"
    using sample_step_control [of L p i s] by simp
  have pos: "0 < ?N" using reached_step.prems .
  have b: "0 \<le> int i mod ?N \<and> int i mod ?N < ?N" using pos by simp
  show ?case
  proof (cases "int i mod ?N + 1 \<ge> ?N")
    case True
    then have e: "int i mod ?N = ?N - 1" using b by linarith
    have "(int i + 1) mod ?N = (int i mod ?N + 1) mod ?N" by (simp add: mod_add_left_eq)
    also have "\<dots> = 0" using e by simp
    finally have "int (Suc i) mod ?N = 0" by (simp add: add.commute)
    then show ?thesis using True pos by (simp add: rt lim t)
  next
    case False
    then have lt: "int i mod ?N + 1 < ?N" by simp
    have "(int i + 1) mod ?N = (int i mod ?N + 1) mod ?N" by (simp add: mod_add_left_eq)
    also have "\<dots> = int i mod ?N + 1" using lt b by simp
    finally have "int (Suc i) mod ?N = int i mod ?N + 1" by (simp add: add.commute)
    then show ?thesis using False by (simp add: rt lim t)
  qed
qed

lemma repeat_fires_iff:
  "reached L p g i s \<Longrightarrow> 0 < repeatLimit (initial L p g)
   \<Longrightarrow> (repeatLimit s \<noteq> 0 \<and> repeatTime s + 1 \<ge> repeatLimit s)
       = ((int i + 1) mod repeatLimit (initial L p g) = 0)"
proof -
  assume r: "reached L p g i s" and pos: "0 < repeatLimit (initial L p g)"
  let ?N = "repeatLimit (initial L p g)"
  have lim: "repeatLimit s = ?N" using reached_invariant [OF r] by simp
  have t: "repeatTime s = int i mod ?N" using reached_repeatTime [OF r pos] .
  have b: "0 \<le> int i mod ?N \<and> int i mod ?N < ?N" using pos by simp
  have m: "(int i + 1) mod ?N = (int i mod ?N + 1) mod ?N" by (simp add: mod_add_left_eq)
  show ?thesis
  proof (cases "int i mod ?N + 1 \<ge> ?N")
    case True
    then have "int i mod ?N = ?N - 1" using b by linarith
    then have "(int i + 1) mod ?N = 0" using m by simp
    then show ?thesis using True pos by (simp add: lim t)
  next
    case False
    then have lt: "int i mod ?N + 1 < ?N" by simp
    then have "(int i + 1) mod ?N = int i mod ?N + 1" using m b by simp
    then have "(int i + 1) mod ?N \<noteq> 0" using b by simp
    then show ?thesis using False by (simp add: lim t)
  qed
qed

lemma repeatLimit_formula:
  "r \<noteq> 0 \<Longrightarrow> (1 - r)\<^sup>2 * 20000 + 32 < 2147483648 \<Longrightarrow> repeatSpeedValue p = Fin r
   \<Longrightarrow> repeatLimit (initial L p g) = \<lfloor>(1 - r)\<^sup>2 * 20000 + 32\<rfloor>
       \<and> 32 \<le> repeatLimit (initial L p g)"
proof -
  assume r: "r \<noteq> 0" and up: "(1 - r)\<^sup>2 * 20000 + 32 < 2147483648"
    and p: "repeatSpeedValue p = Fin r"
  let ?x = "(1 - r)\<^sup>2 * 20000 + 32"
  have lo: "32 \<le> ?x" by simp
  have v: "powf (Fin 1 - Fin r) 2 * Fin 20000 + Fin 32 = Fin ?x"
    by (simp add: cfloat_ops eval_nat_numeral power2_eq_square)
  have "repeatLimit (initial L p g) = to_int (Fin ?x)"
    using initial_control [of L p g] r by (simp add: p v feq_def)
  also have "\<dots> = \<lfloor>?x\<rfloor>"
  proof -
    have "- 2147483649 < ?x" "0 \<le> ?x" using lo by linarith+
    then show ?thesis using up unfolding to_int.simps trunc_def by presburger
  qed
  finally have e: "repeatLimit (initial L p g) = \<lfloor>?x\<rfloor>" .
  have "32 \<le> \<lfloor>?x\<rfloor>" using lo by (simp add: le_floor_iff)
  then show ?thesis using e by simp
qed

lemma repeat_step_leaves:
  "envelopeStage (repeat_step p s) = envelopeStage s
   \<and> envelopeTime (repeat_step p s) = envelopeTime s
   \<and> envelopeLength (repeat_step p s) = envelopeLength s
   \<and> envelopeVolume (repeat_step p s) = envelopeVolume s
   \<and> fltp (repeat_step p s) = fltp s \<and> fltdp (repeat_step p s) = fltdp s
   \<and> fltw (repeat_step p s) = fltw s \<and> fltwd (repeat_step p s) = fltwd s
   \<and> fltdmp (repeat_step p s) = fltdmp s \<and> fltphp (repeat_step p s) = fltphp s
   \<and> flthp (repeat_step p s) = flthp s \<and> flthpd (repeat_step p s) = flthpd s
   \<and> fphase (repeat_step p s) = fphase s \<and> fdphase (repeat_step p s) = fdphase s
   \<and> iphase (repeat_step p s) = iphase s \<and> ipp (repeat_step p s) = ipp s
   \<and> phaserBuffer (repeat_step p s) = phaserBuffer s
   \<and> phase (repeat_step p s) = phase s"
  by (simp add: repeat_step_def Let_def)

lemma passes_sustain:
  "\<not> minFrequencyValue p > Fin 0 \<Longrightarrow> envelopeLength (initial L p g) ! 0 = 0
   \<Longrightarrow> int k \<le> envelopeLength (initial L p g) ! 1
   \<Longrightarrow> Suc k \<le> MAX_WAVE_LENGTH_SECONDS * WAVE_SAMPLE_RATE
   \<Longrightarrow> reached L p g (Suc k) (passes L p (Suc k) (initial L p g))
       \<and> generatingSample (passes L p (Suc k) (initial L p g))
       \<and> envelopeStage (passes L p (Suc k) (initial L p g)) = 1
       \<and> envelopeTime (passes L p (Suc k) (initial L p g)) = int k"
proof (induction k)
  case 0
  let ?s0 = "initial L p g"
  have c0: "envelopeStage ?s0 = 0 \<and> envelopeTime ?s0 = 0 \<and> generatingSample ?s0"
    using initial_control [of L p g] by simp
  have nx: "envelopeStage (sample_step L p 0 ?s0) = 1 \<and> envelopeTime (sample_step L p 0 ?s0) = 0"
    using sample_step_control [of L p 0 ?s0] c0 "0.prems"(2) by (simp add: envelope_next_def)
  have g: "generatingSample (sample_step L p 0 ?s0)"
    using sample_step_generating(2) [of ?s0 p L 0] c0 nx "0.prems"(1) by simp
  have r: "reached L p g (Suc 0) (sample_step L p 0 ?s0)"
    using reached_step [OF reached_initial, of L p g] c0 by (simp add: MAX_samples)
  show ?case using nx g r by simp
next
  case (Suc k)
  let ?s = "passes L p (Suc k) (initial L p g)"
  let ?s' = "sample_step L p (Suc k) ?s"
  have ih: "reached L p g (Suc k) ?s \<and> generatingSample ?s \<and> envelopeStage ?s = 1
            \<and> envelopeTime ?s = int k"
    using Suc by simp
  have len: "envelopeLength ?s = envelopeLength (initial L p g)"
    using reached_invariant [of L p g "Suc k" ?s] ih by simp
  have nx: "envelopeStage ?s' = 1 \<and> envelopeTime ?s' = int (Suc k)"
    using sample_step_control [of L p "Suc k" ?s] ih len Suc.prems(3)
    by (simp add: envelope_next_def)
  have g: "generatingSample ?s'"
    using sample_step_generating(2) [of ?s p L "Suc k"] ih nx Suc.prems(1) by simp
  have r: "reached L p g (Suc (Suc k)) ?s'"
    using reached_step [of L p g "Suc k" ?s] ih Suc.prems(4) by simp
  show ?case using nx g r by simp
qed

text \<open>
  C7. In every state the loop reaches, with \<open>i\<close> passes done: the repeat limit is the
  one computed before the loop, 0 when the repeat speed equals 0 and otherwise the
  integer part of (1 - repeatSpeed)^2 * 20000 + 32 (at least 32, for a repeat speed
  whose limit fits an \<^verbatim>\<open>int\<close>). With a limit of 0 the repeat block only counts. With a
  positive limit it fires in the passes whose number \<open>i + 1\<close> is a multiple of the
  limit, and only in those: there it sets the repeat time to 0 and the period, slide,
  duty and arpeggio locals to the values they had before the loop, and in the other
  passes it only counts. The envelope, the filters, the phaser and the phase are never
  touched by the block.
\<close>

theorem repeat_mechanism:
  "reached L p g i s \<Longrightarrow>
     repeatLimit s = repeatLimit (initial L p g)
     \<and> (feq (repeatSpeedValue p) (Fin 0) \<longrightarrow> repeatLimit s = 0)
     \<and> (repeatSpeedValue p = Fin r \<and> r \<noteq> 0 \<and> (1 - r)\<^sup>2 * 20000 + 32 < 2147483648
          \<longrightarrow> repeatLimit s = \<lfloor>(1 - r)\<^sup>2 * 20000 + 32\<rfloor> \<and> 32 \<le> repeatLimit s)
     \<and> (repeatLimit s = 0 \<longrightarrow> repeat_step p s = s\<lparr>repeatTime := repeatTime s + 1\<rparr>)
     \<and> (0 < repeatLimit s \<and> (int i + 1) mod repeatLimit s \<noteq> 0
          \<longrightarrow> repeat_step p s = s\<lparr>repeatTime := repeatTime s + 1\<rparr>)
     \<and> (0 < repeatLimit s \<and> (int i + 1) mod repeatLimit s = 0
          \<longrightarrow> repeat_step p s =
                s\<lparr>repeatTime := 0,
                  fperiod := fperiod (initial L p g), period := period (initial L p g),
                  fmaxperiod := fmaxperiod (initial L p g), fslide := fslide (initial L p g),
                  fdslide := fdslide (initial L p g), squareDuty := squareDuty (initial L p g),
                  squareSlide := squareSlide (initial L p g),
                  arpeggioModulation := arpeggioModulation (initial L p g),
                  arpeggioTime := arpeggioTime (initial L p g),
                  arpeggioLimit := arpeggioLimit (initial L p g)\<rparr>)
     \<and> envelopeStage (repeat_step p s) = envelopeStage s
     \<and> envelopeTime (repeat_step p s) = envelopeTime s
     \<and> envelopeVolume (repeat_step p s) = envelopeVolume s
     \<and> fltp (repeat_step p s) = fltp s \<and> fltdp (repeat_step p s) = fltdp s
     \<and> fltw (repeat_step p s) = fltw s \<and> fltphp (repeat_step p s) = fltphp s
     \<and> flthp (repeat_step p s) = flthp s
     \<and> fphase (repeat_step p s) = fphase s \<and> iphase (repeat_step p s) = iphase s
     \<and> ipp (repeat_step p s) = ipp s \<and> phaserBuffer (repeat_step p s) = phaserBuffer s
     \<and> phase (repeat_step p s) = phase s"
proof -
  assume r: "reached L p g i s"
  let ?N = "repeatLimit (initial L p g)"
  have lim: "repeatLimit s = ?N" using reached_invariant [OF r] by simp
  have zero: "feq (repeatSpeedValue p) (Fin 0) \<longrightarrow> repeatLimit s = 0"
    using initial_control [of L p g] by (simp add: lim)
  have formula: "repeatSpeedValue p = Fin r \<and> r \<noteq> 0 \<and> (1 - r)\<^sup>2 * 20000 + 32 < 2147483648
          \<longrightarrow> repeatLimit s = \<lfloor>(1 - r)\<^sup>2 * 20000 + 32\<rfloor> \<and> 32 \<le> repeatLimit s"
    using repeatLimit_formula [of r p L g] by (simp add: lim)
  have off: "repeatLimit s = 0 \<longrightarrow> repeat_step p s = s\<lparr>repeatTime := repeatTime s + 1\<rparr>"
    using repeat_step_idle [of s p] by simp
  have idle: "0 < repeatLimit s \<and> (int i + 1) mod repeatLimit s \<noteq> 0
          \<longrightarrow> repeat_step p s = s\<lparr>repeatTime := repeatTime s + 1\<rparr>"
    using repeat_fires_iff [OF r] repeat_step_idle [of s p] by (simp add: lim)
  have fire: "0 < repeatLimit s \<and> (int i + 1) mod repeatLimit s = 0
          \<longrightarrow> repeat_step p s =
                s\<lparr>repeatTime := 0,
                  fperiod := fperiod (initial L p g), period := period (initial L p g),
                  fmaxperiod := fmaxperiod (initial L p g), fslide := fslide (initial L p g),
                  fdslide := fdslide (initial L p g), squareDuty := squareDuty (initial L p g),
                  squareSlide := squareSlide (initial L p g),
                  arpeggioModulation := arpeggioModulation (initial L p g),
                  arpeggioTime := arpeggioTime (initial L p g),
                  arpeggioLimit := arpeggioLimit (initial L p g)\<rparr>"
    using repeat_fires_iff [OF r] repeat_step_fires [of s p L g] by (simp add: lim)
  show ?thesis
    using lim zero formula off idle fire repeat_step_leaves [of p s] by simp
qed

theorem repeat_mechanism_witness:
  "reached sample_libc repeating 0 31 (passes sample_libc repeating 31 (initial sample_libc repeating 0))
   \<and> repeatLimit (passes sample_libc repeating 31 (initial sample_libc repeating 0)) = 32
   \<and> repeatTime (repeat_step repeating
        (passes sample_libc repeating 31 (initial sample_libc repeating 0))) = 0
   \<and> fperiod (repeat_step repeating
        (passes sample_libc repeating 31 (initial sample_libc repeating 0)))
     = fperiod (initial sample_libc repeating 0)
   \<and> envelopeTime (repeat_step repeating
        (passes sample_libc repeating 31 (initial sample_libc repeating 0))) = 30"
proof -
  let ?s = "passes sample_libc repeating 31 (initial sample_libc repeating 0)"
  have minf: "\<not> minFrequencyValue repeating > Fin 0"
    by (simp add: repeating_def zero_params_def cfloat_ops)
  have len: "envelopeLength (initial sample_libc repeating 0) = [0, 900000, 0]"
    using initial_control [of sample_libc repeating 0]
    by (simp add: repeating_def zero_params_def cfloat_ops trunc_def)
  have ps: "reached sample_libc repeating 0 (Suc 30) (passes sample_libc repeating (Suc 30) (initial sample_libc repeating 0))
       \<and> generatingSample (passes sample_libc repeating (Suc 30) (initial sample_libc repeating 0))
       \<and> envelopeStage (passes sample_libc repeating (Suc 30) (initial sample_libc repeating 0)) = 1
       \<and> envelopeTime (passes sample_libc repeating (Suc 30) (initial sample_libc repeating 0)) = int 30"
    using minf by (intro passes_sustain) (simp_all add: len MAX_samples)
  have e: "Suc 30 = 31" by simp
  have r: "reached sample_libc repeating 0 31 ?s" using ps unfolding e by simp
  have t: "envelopeTime ?s = 30" using ps unfolding e by simp
  have sp: "repeatSpeedValue repeating = Fin 1" by (simp add: repeating_def)
  note th = repeat_mechanism [OF r, of 1]
  have lim: "repeatLimit ?s = 32" using th by (simp add: sp)
  have m: "0 < repeatLimit ?s \<and> (int 31 + 1) mod repeatLimit ?s = 0" by (simp add: lim)
  have fire: "repeat_step repeating ?s =
                ?s\<lparr>repeatTime := 0,
                  fperiod := fperiod (initial sample_libc repeating 0),
                  period := period (initial sample_libc repeating 0),
                  fmaxperiod := fmaxperiod (initial sample_libc repeating 0),
                  fslide := fslide (initial sample_libc repeating 0),
                  fdslide := fdslide (initial sample_libc repeating 0),
                  squareDuty := squareDuty (initial sample_libc repeating 0),
                  squareSlide := squareSlide (initial sample_libc repeating 0),
                  arpeggioModulation := arpeggioModulation (initial sample_libc repeating 0),
                  arpeggioTime := arpeggioTime (initial sample_libc repeating 0),
                  arpeggioLimit := arpeggioLimit (initial sample_libc repeating 0)\<rparr>"
    using th m by blast
  show ?thesis
    using r t lim by (simp add: fire)
qed

section \<open>The seed of a randomized sound\<close>














end
